theory Spec2Isabelle
  imports Complex_Main
begin

section \<open>JavaScript values\<close>

text \<open>
  The client handles whatever \<^verbatim>\<open>JSON.parse\<close> gives it, typed \<^verbatim>\<open>any\<close>. A value is
  one of JavaScript's: \<^verbatim>\<open>undefined\<close>, \<^verbatim>\<open>null\<close>, a boolean, a number, a string, an array
  or a plain object. An object is the list of its own enumerable properties in the
  order \<^verbatim>\<open>Object.keys\<close> lists them, each key once. A number is a real: the
  numbers of JSON and the integers this code computes are finite, and \<^verbatim>\<open>-0\<close> is
  taken for 0, from which no operation of this code tells it apart.
\<close>

datatype jsval =
    JUndefined
  | JNull
  | JBool bool
  | JNum real
  | JStr string
  | JArr "jsval list"
  | JObj "(string \<times> jsval) list"

text \<open>What is thrown: a \<^verbatim>\<open>WebDriverError\<close> of \<^verbatim>\<open>webdriver.ts\<close>, or any other
  JavaScript error, by its name and message.\<close>

record WebDriverError =
  message :: string
  statusCode :: "nat option"
  webdriverError :: "jsval option"

datatype thrown =
    WebDriverError_thrown WebDriverError
  | JSError string string

text \<open>\<^verbatim>\<open>if (v)\<close>, \<^verbatim>\<open>a && b\<close>, \<^verbatim>\<open>a || b\<close>, \<^verbatim>\<open>!v\<close> test this.\<close>

fun truthy :: "jsval \<Rightarrow> bool" where
  "truthy JUndefined = False"
| "truthy JNull = False"
| "truthy (JBool b) = b"
| "truthy (JNum n) = (n \<noteq> 0)"
| "truthy (JStr s) = (s \<noteq> [])"
| "truthy (JArr xs) = True"
| "truthy (JObj kvs) = True"

text \<open>Decimal digits of a natural number: how an HTTP status code, a timeout in
  milliseconds and an array index print.\<close>

function show_nat :: "nat \<Rightarrow> string" where
  "show_nat n =
     (if n < 10 then [''0123456789'' ! n]
      else show_nat (n div 10) @ [''0123456789'' ! (n mod 10)])"
  by pat_completeness auto
termination
  by (relation "measure (\<lambda>n. n)") auto

declare show_nat.simps [simp del]

text \<open>Sequencing of steps that may throw.\<close>

definition and_then :: "thrown + 'a \<Rightarrow> ('a \<Rightarrow> thrown + 'b) \<Rightarrow> thrown + 'b" where
  "and_then m f = (case m of Inl e \<Rightarrow> Inl e | Inr x \<Rightarrow> f x)"

text \<open>\<^verbatim>\<open>xs.map(f)\<close> with a callback that may throw: the elements in order, stopping at
  the first throw.\<close>

fun map_throwing :: "('a \<Rightarrow> thrown + 'b) \<Rightarrow> 'a list \<Rightarrow> thrown + 'b list" where
  "map_throwing f [] = Inr []"
| "map_throwing f (x # xs) =
     and_then (f x) (\<lambda>y. and_then (map_throwing f xs) (\<lambda>ys. Inr (y # ys)))"

section \<open>The platform\<close>

text \<open>
  What \<^verbatim>\<open>await fetch(url, options)\<close> did: it rejected with an error (its
  \<^verbatim>\<open>message\<close> is kept), or it resolved to a response with a status code whose body
  \<^verbatim>\<open>await response.text()\<close> then reads, or fails to read with an error of the
  platform's (its name and message).
\<close>

datatype body = BodyText string | BodyFailed string string

record Response =
  status :: nat
  text_body :: body

datatype fetch_result = Rejected string | Resolved Response

text \<open>\<^verbatim>\<open>response.ok\<close> of the Fetch API: the status is in the range 200 to 299.\<close>

definition ok :: "Response \<Rightarrow> bool" where
  "ok r = (200 \<le> status r \<and> status r \<le> 299)"

text \<open>
  What the program does not decide, and what the language and Node do for it:
  \<^item> the home directory;
  \<^item> \<^verbatim>\<open>JSON.parse\<close> (\<^verbatim>\<open>None\<close> where it throws) and \<^verbatim>\<open>JSON.stringify(v, null, 2)\<close>;
  \<^item> how a number prints (\<^verbatim>\<open>Number.prototype.toString\<close>: decimal digits for an
    integer below \<^verbatim>\<open>1e21\<close> in size, exponent form from there on);
  \<^item> the number a string converts to (\<^verbatim>\<open>StringToNumber\<close>, which \<^verbatim>\<open>pid | 0\<close> and
    \<^verbatim>\<open>pid != n\<close> apply to a string: the number that the string, white space trimmed off,
    is a numeral of, 0 for the empty string, and \<^verbatim>\<open>None\<close> where the result is \<^verbatim>\<open>NaN\<close> or
    infinite);
  \<^item> what a \<^verbatim>\<open>fetch\<close> started at a given time with a method, URL and body does, and how
    long it takes;
  \<^item> how late a timer fires, and how a date prints;
  \<^item> the process id a \<^verbatim>\<open>spawn\<close> gets (\<^verbatim>\<open>None\<close> when it got none);
  \<^item> whether a process seen alive has gone by the time it is signalled.
\<close>

record env =
  homedir :: string
  JSON_parse :: "string \<Rightarrow> jsval option"
  JSON_stringify :: "jsval \<Rightarrow> string"
  Number_toString :: "real \<Rightarrow> string"
  StringToNumber :: "string \<Rightarrow> real option"
  fetch :: "nat \<Rightarrow> string \<Rightarrow> string \<Rightarrow> jsval option \<Rightarrow> nat \<times> fetch_result"
  timer_late :: "nat \<Rightarrow> nat"
  toISOString :: "nat \<Rightarrow> string"
  spawn_pid :: "nat \<Rightarrow> string list \<Rightarrow> int option"
  kill_fails :: "nat \<Rightarrow> int \<Rightarrow> bool"

text \<open>
  \<^verbatim>\<open>String(v)\<close>, which a template literal \<^verbatim>\<open>`${v}`\<close> and the \<^verbatim>\<open>Error\<close> constructor
  apply. An array prints its elements joined by commas, \<^verbatim>\<open>null\<close> and \<^verbatim>\<open>undefined\<close>
  among them as nothing. A plain object prints as \<^verbatim>\<open>[object Object]\<close> through
  \<^verbatim>\<open>Object.prototype.toString\<close>, unless it has a key \<^verbatim>\<open>toString\<close> of its own: that
  value is no function, \<^verbatim>\<open>valueOf\<close> gives no primitive either, and the conversion
  throws a TypeError.
\<close>

fun ToString :: "env \<Rightarrow> jsval \<Rightarrow> thrown + string"
  and join_elements :: "env \<Rightarrow> jsval list \<Rightarrow> thrown + string"
  and element_string :: "env \<Rightarrow> jsval \<Rightarrow> thrown + string"
where
  "ToString env JUndefined = Inr ''undefined''"
| "ToString env JNull = Inr ''null''"
| "ToString env (JBool b) = Inr (if b then ''true'' else ''false'')"
| "ToString env (JNum n) = Inr (Number_toString env n)"
| "ToString env (JStr s) = Inr s"
| "ToString env (JArr xs) = join_elements env xs"
| "ToString env (JObj kvs) =
     (if ''toString'' \<in> set (map fst kvs) then
        Inl (JSError ''TypeError'' ''Cannot convert object to primitive value'')
      else Inr ''[object Object]'')"
| "join_elements env [] = Inr []"
| "join_elements env [x] = element_string env x"
| "join_elements env (x # y # ys) =
     and_then (element_string env x) (\<lambda>first.
       and_then (join_elements env (y # ys)) (\<lambda>rest. Inr (first @ '','' @ rest)))"
| "element_string env x = (if x = JUndefined \<or> x = JNull then Inr [] else ToString env x)"

text \<open>
  \<^verbatim>\<open>v[k]\<close> and \<^verbatim>\<open>v.k\<close> on a value that is neither \<^verbatim>\<open>null\<close> nor \<^verbatim>\<open>undefined\<close>, for
  the keys this code reads: the fixed names \<^verbatim>\<open>value\<close>, \<^verbatim>\<open>error\<close>, \<^verbatim>\<open>message\<close>,
  \<^verbatim>\<open>sessionId\<close>, \<^verbatim>\<open>port\<close>, \<^verbatim>\<open>pid\<close>, \<^verbatim>\<open>startedAt\<close>, and a key taken from
  \<^verbatim>\<open>Object.keys(v)\<close> (or \<^verbatim>\<open>undefined\<close>, read as the name \<^verbatim>\<open>"undefined"\<close>). An object
  gives its own property; an array or a string gives the element at an index written
  in decimal, and its \<^verbatim>\<open>length\<close>; every other read gives \<^verbatim>\<open>undefined\<close>.
\<close>

fun own_prop :: "jsval \<Rightarrow> string \<Rightarrow> jsval" where
  "own_prop (JObj kvs) k = (case map_of kvs k of None \<Rightarrow> JUndefined | Some v \<Rightarrow> v)"
| "own_prop (JArr xs) k =
     (if k = ''length'' then JNum (real (length xs))
      else case find (\<lambda>i. show_nat i = k) [0..<length xs] of
             None \<Rightarrow> JUndefined
           | Some i \<Rightarrow> xs ! i)"
| "own_prop (JStr s) k =
     (if k = ''length'' then JNum (real (length s))
      else case find (\<lambda>i. show_nat i = k) [0..<length s] of
             None \<Rightarrow> JUndefined
           | Some i \<Rightarrow> JStr [s ! i])"
| "own_prop v k = JUndefined"

text \<open>The same read on any value: on \<^verbatim>\<open>null\<close> and \<^verbatim>\<open>undefined\<close> it throws a
  TypeError (the message is V8's).\<close>

definition quoted :: "string \<Rightarrow> string" where
  "quoted k = [CHR 0x27] @ k @ [CHR 0x27]"

definition get_prop :: "jsval \<Rightarrow> string \<Rightarrow> thrown + jsval" where
  "get_prop v k =
     (if v = JUndefined then
        Inl (JSError ''TypeError''
          (''Cannot read properties of undefined (reading '' @ quoted k @ '')''))
      else if v = JNull then
        Inl (JSError ''TypeError''
          (''Cannot read properties of null (reading '' @ quoted k @ '')''))
      else Inr (own_prop v k))"

text \<open>\<^verbatim>\<open>Object.keys(v)\<close>: the own enumerable keys, in order; the indices of an array
  or a string; none for a boolean or a number; a TypeError for \<^verbatim>\<open>null\<close> and
  \<^verbatim>\<open>undefined\<close>.\<close>

fun Object_keys :: "jsval \<Rightarrow> thrown + string list" where
  "Object_keys JUndefined =
     Inl (JSError ''TypeError'' ''Cannot convert undefined or null to object'')"
| "Object_keys JNull =
     Inl (JSError ''TypeError'' ''Cannot convert undefined or null to object'')"
| "Object_keys (JBool b) = Inr []"
| "Object_keys (JNum n) = Inr []"
| "Object_keys (JStr s) = Inr (map show_nat [0..<length s])"
| "Object_keys (JArr xs) = Inr (map show_nat [0..<length xs])"
| "Object_keys (JObj kvs) = Inr (map fst kvs)"

text \<open>\<^verbatim>\<open>keys[0]\<close> used as a property name: \<^verbatim>\<open>undefined\<close>, for an empty array, names
  the property \<^verbatim>\<open>"undefined"\<close>.\<close>

definition first_key :: "string list \<Rightarrow> string" where
  "first_key keys = (case keys of [] \<Rightarrow> ''undefined'' | k # _ \<Rightarrow> k)"

section \<open>The protocol client (\<^verbatim>\<open>webdriver.ts\<close>)\<close>

text \<open>The constructor: \<^verbatim>\<open>this.baseUrl = `http://localhost:${port}`\<close>. It throws where
  the port does not convert to a string.\<close>

record WebDriver =
  baseUrl :: string

definition new_WebDriver :: "env \<Rightarrow> jsval \<Rightarrow> thrown + WebDriver" where
  "new_WebDriver env port =
     and_then (ToString env port) (\<lambda>p. Inr \<lparr>baseUrl = ''http://localhost:'' @ p\<rparr>)"

text \<open>
  \<^verbatim>\<open>request(method, path, body)\<close>, from the outcome of its \<^verbatim>\<open>fetch\<close> on.
  \<^verbatim>\<open>super(message)\<close> in the constructor of \<^verbatim>\<open>WebDriverError\<close> converts the message to a
  string, and throws where that conversion throws.
\<close>

definition request :: "env \<Rightarrow> WebDriver \<Rightarrow> fetch_result \<Rightarrow> thrown + jsval" where
  "request env this fetched =
     (case fetched of
        Rejected err_message \<Rightarrow>
          Inl (WebDriverError_thrown
            \<lparr>message = ''Cannot connect to SafariDriver at '' @ baseUrl this @ '': '' @ err_message,
             statusCode = None, webdriverError = None\<rparr>)
      | Resolved response \<Rightarrow>
          (case text_body response of
             BodyFailed name msg \<Rightarrow> Inl (JSError name msg)
           | BodyText text \<Rightarrow>
               (case JSON_parse env text of
                  None \<Rightarrow>
                    if \<not> ok response then
                      Inl (WebDriverError_thrown
                        \<lparr>message = ''HTTP '' @ show_nat (status response) @ '': '' @ text,
                         statusCode = Some (status response), webdriverError = None\<rparr>)
                    else Inr (JStr text)
                | Some json \<Rightarrow>
                    and_then (get_prop json ''value'') (\<lambda>json_value.
                      if \<not> truthy json_value then Inr json_value
                      else
                        and_then (get_prop json_value ''error'') (\<lambda>json_value_error.
                          if truthy json_value_error then
                            and_then (get_prop json_value ''message'') (\<lambda>json_value_message.
                              and_then
                                (ToString env
                                   (if truthy json_value_message then json_value_message
                                    else json_value_error))
                                (\<lambda>message_string.
                                   Inl (WebDriverError_thrown
                                     \<lparr>message = message_string,
                                      statusCode = Some (status response),
                                      webdriverError = Some json_value_error\<rparr>)))
                          else Inr json_value)))))"

text \<open>\<^verbatim>\<open>findElement\<close> and \<^verbatim>\<open>findElements\<close>, from the outcome of the \<^verbatim>\<open>fetch\<close> of
  their \<^verbatim>\<open>request\<close> on. \<^verbatim>\<open>results.map\<close> is a function only when \<^verbatim>\<open>results\<close> is an
  array; reading it from \<^verbatim>\<open>null\<close> or \<^verbatim>\<open>undefined\<close> throws, and calling it on any other
  value throws.\<close>

definition findElement :: "env \<Rightarrow> WebDriver \<Rightarrow> fetch_result \<Rightarrow> thrown + jsval" where
  "findElement env this fetched =
     and_then (request env this fetched) (\<lambda>result.
       and_then (Object_keys result) (\<lambda>keys.
         Inr (own_prop result (first_key keys))))"

definition findElements :: "env \<Rightarrow> WebDriver \<Rightarrow> fetch_result \<Rightarrow> thrown + jsval list" where
  "findElements env this fetched =
     and_then (request env this fetched) (\<lambda>results.
       case results of
         JArr rs \<Rightarrow>
           map_throwing (\<lambda>r.
             and_then (Object_keys r) (\<lambda>keys.
               Inr (own_prop r (first_key keys)))) rs
       | _ \<Rightarrow>
           and_then (get_prop results ''map'') (\<lambda>_.
             Inl (JSError ''TypeError'' ''results.map is not a function'')))"

section \<open>The world outside the program\<close>

text \<open>
  The state file \<^verbatim>\<open>~/.safari-cli/session.json\<close> is absent, present but not readable
  (\<^verbatim>\<open>readFileSync\<close> throws), or has a content. The world also holds whether the state
  directory exists, whether the file system accepts changes there (\<^verbatim>\<open>mkdirSync\<close>,
  \<^verbatim>\<open>writeFileSync\<close> and \<^verbatim>\<open>unlinkSync\<close> throw when it does not), the calls of
  \<^verbatim>\<open>node:fs\<close> that changed it so far, the process id and the process group of the
  program itself, the other pid arguments for which \<^verbatim>\<open>kill(2)\<close> finds a process the
  program may signal, the argument vectors of the calls of \<^verbatim>\<open>spawn\<close> so far, the lines
  printed, and the clock in milliseconds.
\<close>

datatype file_state = Absent | Unreadable | Content string

datatype fs_op =
    Mkdir string
  | WriteFile string string
  | Unlink string
  | Rename string string

datatype stream = Stdout | Stderr

record world =
  dir_exists :: bool
  state_file :: file_state
  writable :: bool
  fs_log :: "fs_op list"
  cli_pid :: int
  cli_pgid :: int
  alive :: "int set"
  spawned :: "string list list"
  console :: "(stream \<times> string) list"
  now :: nat

text \<open>How a command ends: its action returns, the process exits with a status, an
  error leaves the action, or a signal terminates the process.\<close>

datatype outcome = Returned | Exited nat | Threw thrown | Killed

definition console_log :: "string \<Rightarrow> world \<Rightarrow> world" where
  "console_log line w = w\<lparr>console := console w @ [(Stdout, line)]\<rparr>"

definition console_error :: "string \<Rightarrow> world \<Rightarrow> world" where
  "console_error line w = w\<lparr>console := console w @ [(Stderr, line)]\<rparr>"

text \<open>\<^verbatim>\<open>console.log(`...${v}...`)\<close>: the template literal is evaluated first, and where
  a conversion in it throws, nothing is printed.\<close>

definition console_log_template :: "thrown + string \<Rightarrow> world \<Rightarrow> (thrown + unit) \<times> world" where
  "console_log_template line w =
     (case line of Inl e \<Rightarrow> (Inl e, w) | Inr l \<Rightarrow> (Inr (), console_log l w))"

text \<open>Sequencing of steps in the world that may throw: a throw keeps the world it
  happened in.\<close>

definition and_next ::
  "(thrown + 'a) \<times> world \<Rightarrow> ('a \<Rightarrow> world \<Rightarrow> (thrown + 'b) \<times> world) \<Rightarrow> (thrown + 'b) \<times> world" where
  "and_next m f = (case m of (Inl e, w) \<Rightarrow> (Inl e, w) | (Inr x, w) \<Rightarrow> f x w)"

text \<open>\<^verbatim>\<open>await new Promise((r) => setTimeout(r, ms))\<close>.\<close>

definition setTimeout :: "env \<Rightarrow> nat \<Rightarrow> world \<Rightarrow> world" where
  "setTimeout env ms w = w\<lparr>now := now w + ms + timer_late env (now w)\<rparr>"

text \<open>\<^verbatim>\<open>e.message\<close> of a caught error.\<close>

fun thrown_message :: "thrown \<Rightarrow> string" where
  "thrown_message (WebDriverError_thrown e) = message e"
| "thrown_message (JSError name msg) = msg"

section \<open>The client's calls\<close>

text \<open>\<^verbatim>\<open>this.request(method, path, body)\<close> in the world: the \<^verbatim>\<open>fetch\<close> of
  \<^verbatim>\<open>`${this.baseUrl}${path}`\<close>, then \<^const>\<open>request\<close> on what it did.\<close>

definition this_request ::
  "env \<Rightarrow> WebDriver \<Rightarrow> string \<Rightarrow> string \<Rightarrow> jsval option \<Rightarrow> world \<Rightarrow> (thrown + jsval) \<times> world" where
  "this_request env this method path body w =
     (let (duration, fetched) = fetch env (now w) method (baseUrl this @ path) body
      in (request env this fetched, w\<lparr>now := now w + duration\<rparr>))"

definition capabilities :: jsval where
  "capabilities =
     JObj [(''capabilities'',
       JObj [(''alwaysMatch'',
         JObj [(''browserName'', JStr ''safari''),
               (''safari:automaticInspection'', JBool True),
               (''safari:automaticProfiling'', JBool True)])])]"

definition createSession :: "env \<Rightarrow> WebDriver \<Rightarrow> world \<Rightarrow> (thrown + jsval) \<times> world" where
  "createSession env this w =
     (let (result, w') = this_request env this ''POST'' ''/session'' (Some capabilities) w
      in (and_then result (\<lambda>r. get_prop r ''sessionId''), w'))"

text \<open>A call whose path holds the session id evaluates the path first:
  \<^verbatim>\<open>`/session/${sessionId}`\<close> throws where the id does not convert to a string, and no
  request is made then.\<close>

definition deleteSession :: "env \<Rightarrow> WebDriver \<Rightarrow> jsval \<Rightarrow> world \<Rightarrow> (thrown + unit) \<times> world" where
  "deleteSession env this sessionId w =
     (case ToString env sessionId of
        Inl e \<Rightarrow> (Inl e, w)
      | Inr sid \<Rightarrow>
          (let (result, w') = this_request env this ''DELETE'' (''/session/'' @ sid) None w
           in (and_then result (\<lambda>_. Inr ()), w')))"

definition getStatus :: "env \<Rightarrow> WebDriver \<Rightarrow> world \<Rightarrow> (thrown + jsval) \<times> world" where
  "getStatus env this w = this_request env this ''GET'' ''/status'' None w"

definition getCurrentUrl :: "env \<Rightarrow> WebDriver \<Rightarrow> jsval \<Rightarrow> world \<Rightarrow> (thrown + jsval) \<times> world" where
  "getCurrentUrl env this sessionId w =
     (case ToString env sessionId of
        Inl e \<Rightarrow> (Inl e, w)
      | Inr sid \<Rightarrow> this_request env this ''GET'' (''/session/'' @ sid @ ''/url'') None w)"

definition getTitle :: "env \<Rightarrow> WebDriver \<Rightarrow> jsval \<Rightarrow> world \<Rightarrow> (thrown + jsval) \<times> world" where
  "getTitle env this sessionId w =
     (case ToString env sessionId of
        Inl e \<Rightarrow> (Inl e, w)
      | Inr sid \<Rightarrow> this_request env this ''GET'' (''/session/'' @ sid @ ''/title'') None w)"

definition driver_back :: "env \<Rightarrow> WebDriver \<Rightarrow> jsval \<Rightarrow> world \<Rightarrow> (thrown + unit) \<times> world" where
  "driver_back env this sessionId w =
     (case ToString env sessionId of
        Inl e \<Rightarrow> (Inl e, w)
      | Inr sid \<Rightarrow>
          (let (result, w') =
                 this_request env this ''POST'' (''/session/'' @ sid @ ''/back'') (Some (JObj [])) w
           in (and_then result (\<lambda>_. Inr ()), w')))"

section \<open>Session state persistence (\<^verbatim>\<open>session.ts\<close>)\<close>

definition STATE_DIR :: "env \<Rightarrow> string" where
  "STATE_DIR env = homedir env @ ''/.safari-cli''"

definition STATE_FILE :: "env \<Rightarrow> string" where
  "STATE_FILE env = STATE_DIR env @ ''/session.json''"

definition readFileSync :: "world \<Rightarrow> thrown + string" where
  "readFileSync w =
     (case state_file w of
        Absent \<Rightarrow> Inl (JSError ''Error'' ''ENOENT: no such file or directory'')
      | Unreadable \<Rightarrow> Inl (JSError ''Error'' ''EACCES: permission denied'')
      | Content raw \<Rightarrow> Inr raw)"

definition mkdirSync :: "env \<Rightarrow> world \<Rightarrow> thrown + world" where
  "mkdirSync env w =
     (if writable w then
        Inr (w\<lparr>dir_exists := True, fs_log := fs_log w @ [Mkdir (STATE_DIR env)]\<rparr>)
      else Inl (JSError ''Error'' ''EACCES: permission denied''))"

text \<open>Writing needs the directory, and a file that cannot be read is taken not to be
  writable either.\<close>

definition writeFileSync :: "env \<Rightarrow> string \<Rightarrow> world \<Rightarrow> thrown + world" where
  "writeFileSync env data w =
     (if \<not> dir_exists w then Inl (JSError ''Error'' ''ENOENT: no such file or directory'')
      else if \<not> writable w \<or> state_file w = Unreadable then
        Inl (JSError ''Error'' ''EACCES: permission denied'')
      else
        Inr (w\<lparr>state_file := Content data,
               fs_log := fs_log w @ [WriteFile (STATE_FILE env) data]\<rparr>))"

definition unlinkSync :: "env \<Rightarrow> world \<Rightarrow> thrown + world" where
  "unlinkSync env w =
     (if state_file w = Absent then Inl (JSError ''Error'' ''ENOENT: no such file or directory'')
      else if \<not> writable w then Inl (JSError ''Error'' ''EACCES: permission denied'')
      else Inr (w\<lparr>state_file := Absent, fs_log := fs_log w @ [Unlink (STATE_FILE env)]\<rparr>))"

text \<open>\<^verbatim>\<open>loadSession\<close>: the body of its \<^verbatim>\<open>try\<close>, which may throw, and the function
  with its \<^verbatim>\<open>catch\<close>.\<close>

definition loadSession_try :: "env \<Rightarrow> world \<Rightarrow> thrown + jsval" where
  "loadSession_try env w =
     (if state_file w = Absent then Inr JNull
      else
        and_then (readFileSync w) (\<lambda>raw.
          case JSON_parse env raw of
            None \<Rightarrow> Inl (JSError ''SyntaxError'' ''Unexpected token in JSON'')
          | Some v \<Rightarrow> Inr v))"

definition loadSession :: "env \<Rightarrow> world \<Rightarrow> jsval" where
  "loadSession env w = (case loadSession_try env w of Inl _ \<Rightarrow> JNull | Inr v \<Rightarrow> v)"

definition saveSession :: "env \<Rightarrow> jsval \<Rightarrow> world \<Rightarrow> thrown + world" where
  "saveSession env state w =
     and_then (if \<not> dir_exists w then mkdirSync env w else Inr w) (\<lambda>w1.
       writeFileSync env (JSON_stringify env state @ [CHR 0x0A]) w1)"

definition clearSession :: "env \<Rightarrow> world \<Rightarrow> world" where
  "clearSession env w =
     (case (if state_file w \<noteq> Absent then unlinkSync env w else Inr w) of
        Inl _ \<Rightarrow> w
      | Inr w' \<Rightarrow> w')"

text \<open>\<^verbatim>\<open>requireSession\<close>: the session, or \<^verbatim>\<open>None\<close> when it called
  \<^verbatim>\<open>process.exit(1)\<close>.\<close>

definition requireSession :: "env \<Rightarrow> world \<Rightarrow> jsval option \<times> world" where
  "requireSession env w =
     (let session = loadSession env w in
      if \<not> truthy session then
        (None, console_error ''No active Safari session. Run `safari-cli start` first.'' w)
      else (Some session, w))"


section \<open>The commands (\<^verbatim>\<open>cli.ts\<close>)\<close>

text \<open>A template literal with one substitution, \<^verbatim>\<open>`prefix${v}suffix`\<close>.\<close>

definition interpolate :: "env \<Rightarrow> string \<Rightarrow> jsval \<Rightarrow> string \<Rightarrow> thrown + string" where
  "interpolate env prefix v suffix =
     and_then (ToString env v) (\<lambda>s. Inr (prefix @ s @ suffix))"

text \<open>\<^verbatim>\<open>getDriver(session)\<close> is \<^verbatim>\<open>new WebDriver(session.port)\<close>.\<close>

definition getDriver :: "env \<Rightarrow> jsval \<Rightarrow> thrown + WebDriver" where
  "getDriver env session = new_WebDriver env (own_prop session ''port'')"

text \<open>A number that is a 32-bit integer, as that integer: \<^verbatim>\<open>n == (n | 0)\<close>.\<close>

definition int32 :: "real \<Rightarrow> int option" where
  "int32 n =
     (if real_of_int \<lfloor>n\<rfloor> = n \<and> - 2147483648 \<le> n \<and> n \<le> 2147483647 then Some \<lfloor>n\<rfloor>
      else None)"

text \<open>
  The process id \<^verbatim>\<open>process.kill(pid, sig)\<close> passes on, \<^verbatim>\<open>None\<close> where it throws
  because \<^verbatim>\<open>pid != (pid | 0)\<close> or because that comparison throws. A number is taken
  for itself when it is a 32-bit integer, \<^verbatim>\<open>true\<close> for 1 and \<^verbatim>\<open>false\<close> for 0, and a
  string for the number it converts to when that is a 32-bit integer; an array is
  converted to a string first. \<^verbatim>\<open>null\<close>, \<^verbatim>\<open>undefined\<close> and a plain object are never
  taken: \<^verbatim>\<open>pid | 0\<close> is 0 for them, which they do not equal.
\<close>

definition process_pid :: "env \<Rightarrow> jsval \<Rightarrow> int option" where
  "process_pid env pid =
     (case pid of
        JUndefined \<Rightarrow> None
      | JNull \<Rightarrow> None
      | JBool b \<Rightarrow> Some (if b then 1 else 0)
      | JNum n \<Rightarrow> int32 n
      | JStr s \<Rightarrow> (case StringToNumber env s of None \<Rightarrow> None | Some n \<Rightarrow> int32 n)
      | JArr xs \<Rightarrow>
          (case ToString env (JArr xs) of
             Inl _ \<Rightarrow> None
           | Inr s \<Rightarrow> (case StringToNumber env s of None \<Rightarrow> None | Some n \<Rightarrow> int32 n))
      | JObj kvs \<Rightarrow> None)"

text \<open>
  \<^verbatim>\<open>kill(2)\<close>: a positive pid names that process, 0 names the process group of the
  caller, and a pid below -1 names the process group of that number. So a signal
  reaches the program itself under its own pid, under 0 and under the negative of its
  process group; it finds some process under these and under the other pid arguments
  the world lists.
\<close>

definition reaches_cli :: "world \<Rightarrow> int \<Rightarrow> bool" where
  "reaches_cli w n = ((0 < n \<and> n = cli_pid w) \<or> n = 0 \<or> (n < - 1 \<and> - n = cli_pgid w))"

definition kill_finds :: "world \<Rightarrow> int \<Rightarrow> bool" where
  "kill_finds w n = (reaches_cli w n \<or> n \<in> alive w)"

text \<open>\<^verbatim>\<open>isProcessAlive(pid)\<close>: \<^verbatim>\<open>process.kill(pid, 0)\<close> throws for a value it takes for
  no pid and for a pid under which no process is found, and the \<^verbatim>\<open>catch\<close> answers
  false.\<close>

definition isProcessAlive :: "env \<Rightarrow> world \<Rightarrow> jsval \<Rightarrow> bool" where
  "isProcessAlive env w pid =
     (case process_pid env pid of None \<Rightarrow> False | Some n \<Rightarrow> kill_finds w n)"

text \<open>
  \<^verbatim>\<open>process.kill(pid)\<close> and \<^verbatim>\<open>process.kill(pid, 'SIGTERM')\<close>. The program installs no
  handler for SIGTERM, so a signal that reaches the program itself terminates it
  there. Otherwise the signal ends the process named, unless the call throws.
\<close>

datatype kill_result = Signalled world | KillThrew thrown | CliTerminated

definition process_kill :: "env \<Rightarrow> jsval \<Rightarrow> world \<Rightarrow> kill_result" where
  "process_kill env pid w =
     (case process_pid env pid of
        None \<Rightarrow> KillThrew (JSError ''TypeError'' ''The pid argument must be of type number'')
      | Some n \<Rightarrow>
          if reaches_cli w n then CliTerminated
          else if n \<in> alive w \<and> \<not> kill_fails env (now w) n then
            Signalled (w\<lparr>alive := alive w - {n}\<rparr>)
          else KillThrew (JSError ''Error'' ''kill ESRCH''))"

text \<open>\<^verbatim>\<open>spawn('safaridriver', ['-p', String(port)], ...)\<close>: the child's pid, and the
  world with the process in it.\<close>

definition spawn :: "env \<Rightarrow> string list \<Rightarrow> world \<Rightarrow> int option \<times> world" where
  "spawn env argv w =
     (let pid = spawn_pid env (now w) argv in
      (pid, w\<lparr>spawned := spawned w @ [argv],
              alive := (case pid of None \<Rightarrow> alive w | Some p \<Rightarrow> insert p (alive w))\<rparr>))"

text \<open>The loop of \<^verbatim>\<open>waitForDriver\<close>: true when \<^verbatim>\<open>getStatus\<close> answered, false when
  the deadline passed.\<close>

function waitForDriver_loop :: "env \<Rightarrow> WebDriver \<Rightarrow> nat \<Rightarrow> world \<Rightarrow> bool \<times> world" where
  "waitForDriver_loop env driver deadline w =
     (if now w < deadline then
        (case getStatus env driver w of
           (Inr _, w') \<Rightarrow> (True, w')
         | (Inl _, w') \<Rightarrow> waitForDriver_loop env driver deadline (setTimeout env 200 w'))
      else (False, w))"
  by pat_completeness auto
termination
  apply (relation "measure (\<lambda>(env, driver, deadline, w). deadline - now w)")
   apply simp
  apply (auto simp: getStatus_def this_request_def setTimeout_def split: prod.splits)
  done

declare waitForDriver_loop.simps [simp del]

definition waitForDriver :: "env \<Rightarrow> jsval \<Rightarrow> nat \<Rightarrow> world \<Rightarrow> (thrown + unit) \<times> world" where
  "waitForDriver env port timeoutMs w =
     (case new_WebDriver env port of
        Inl e \<Rightarrow> (Inl e, w)
      | Inr driver \<Rightarrow>
          (let deadline = now w + timeoutMs
           in case waitForDriver_loop env driver deadline w of
                (True, w') \<Rightarrow> (Inr (), w')
              | (False, w') \<Rightarrow>
                  (Inl (JSError ''Error''
                     (''SafariDriver did not start within '' @ show_nat timeoutMs @ ''ms'')), w')))"

text \<open>\<^verbatim>\<open>try { process.kill(child.pid); } catch { /* ignore */ }\<close> and then
  \<^verbatim>\<open>process.exit(1)\<close>.\<close>

definition kill_and_exit :: "env \<Rightarrow> jsval \<Rightarrow> world \<Rightarrow> outcome \<times> world" where
  "kill_and_exit env pid w =
     (case process_kill env pid w of
        CliTerminated \<Rightarrow> (Killed, w)
      | KillThrew _ \<Rightarrow> (Exited 1, w)
      | Signalled w' \<Rightarrow> (Exited 1, w'))"

text \<open>The line \<^verbatim>\<open>start\<close> prints for a session it finds:
  \<^verbatim>\<open>`Session already active (pid=${existing.pid}, port=${existing.port}, session=${existing.sessionId})`\<close>.\<close>

definition session_active_line :: "env \<Rightarrow> jsval \<Rightarrow> thrown + string" where
  "session_active_line env existing =
     and_then (ToString env (own_prop existing ''pid'')) (\<lambda>pid.
       and_then (ToString env (own_prop existing ''port'')) (\<lambda>port.
         and_then (ToString env (own_prop existing ''sessionId'')) (\<lambda>sessionId.
           Inr (''Session already active (pid='' @ pid @ '', port='' @ port @
                '', session='' @ sessionId @ '')''))))"

text \<open>The action of \<^verbatim>\<open>start\<close>; \<^verbatim>\<open>port\<close> is \<^verbatim>\<open>parseInt(opts.port, 10)\<close>, for an
  option that is a numeral. A child without a pid was not spawned.\<close>

definition start :: "env \<Rightarrow> int \<Rightarrow> world \<Rightarrow> outcome \<times> world" where
  "start env port w0 =
     (let existing = loadSession env w0 in
      if truthy existing \<and> isProcessAlive env w0 (own_prop existing ''pid'') then
        (case console_log_template (session_active_line env existing) w0 of
           (Inl e, w) \<Rightarrow> (Threw e, w)
         | (Inr _, w) \<Rightarrow> (Returned, w))
      else
        let w1 = console_error
                   (''Starting safaridriver on port '' @ Number_toString env (real_of_int port) @ ''...'') w0;
            (child, w2) = spawn env [''safaridriver'', ''-p'', Number_toString env (real_of_int port)] w1;
            child_pid = (case child of None \<Rightarrow> JUndefined | Some p \<Rightarrow> JNum (real_of_int p))
        in
          if \<not> truthy child_pid then
            (Exited 1, console_error ''Failed to start safaridriver'' w2)
          else
            case waitForDriver env (JNum (real_of_int port)) 10000 w2 of
              (Inl e, w3) \<Rightarrow>
                kill_and_exit env child_pid (console_error (thrown_message e) w3)
            | (Inr _, w3) \<Rightarrow>
                (case new_WebDriver env (JNum (real_of_int port)) of
                   Inl e \<Rightarrow> (Threw e, w3)
                 | Inr driver \<Rightarrow>
                     (case createSession env driver w3 of
                        (Inl e, w4) \<Rightarrow>
                          kill_and_exit env child_pid
                            (console_error (''Failed to create session: '' @ thrown_message e) w4)
                      | (Inr sessionId, w4) \<Rightarrow>
                          (case saveSession env
                                  (JObj [(''port'', JNum (real_of_int port)),
                                         (''sessionId'', sessionId),
                                         (''pid'', child_pid),
                                         (''startedAt'', JStr (toISOString env (now w4)))]) w4 of
                             Inl e \<Rightarrow> (Threw e, w4)
                           | Inr w5 \<Rightarrow>
                               (case and_next
                                       (console_log_template
                                          (interpolate env ''  Session:   '' sessionId [])
                                          (console_log
                                             (''  Port:      '' @ Number_toString env (real_of_int port))
                                             (console_log ''Safari session started'' w5)))
                                       (\<lambda>_ w6.
                                          console_log_template
                                            (interpolate env ''  PID:       '' child_pid []) w6) of
                                  (Inl e, w) \<Rightarrow> (Threw e, w)
                                | (Inr _, w) \<Rightarrow> (Returned, w))))))"

text \<open>The end of \<^verbatim>\<open>stop\<close>: \<^verbatim>\<open>clearSession()\<close> and the closing line.\<close>

definition close_session :: "env \<Rightarrow> world \<Rightarrow> outcome \<times> world" where
  "close_session env w = (Returned, console_log ''Session closed.'' (clearSession env w))"

text \<open>The action of \<^verbatim>\<open>stop\<close>. The delete is in a \<^verbatim>\<open>try\<close>; so are the signal and the
  line printed after it.\<close>

definition stop :: "env \<Rightarrow> world \<Rightarrow> outcome \<times> world" where
  "stop env w0 =
     (let session = loadSession env w0 in
      if \<not> truthy session then (Returned, console_log ''No active session.'' w0)
      else
        case getDriver env session of
          Inl e \<Rightarrow> (Threw e, w0)
        | Inr driver \<Rightarrow>
            (let (deleted, w1) = deleteSession env driver (own_prop session ''sessionId'') w0
             in
               if isProcessAlive env w1 (own_prop session ''pid'') then
                 (case process_kill env (own_prop session ''pid'') w1 of
                    CliTerminated \<Rightarrow> (Killed, w1)
                  | KillThrew _ \<Rightarrow> close_session env w1
                  | Signalled w' \<Rightarrow>
                      close_session env
                        (snd (console_log_template
                                (interpolate env ''Stopped safaridriver (pid=''
                                   (own_prop session ''pid'') '')'') w')))
               else close_session env w1))"

text \<open>The action of \<^verbatim>\<open>status\<close>. The two calls and the two lines after them are in a
  \<^verbatim>\<open>try\<close> whose \<^verbatim>\<open>catch\<close> ignores what was thrown.\<close>

definition status_command :: "env \<Rightarrow> world \<Rightarrow> outcome \<times> world" where
  "status_command env w0 =
     (let session = loadSession env w0 in
      if \<not> truthy session then (Returned, console_log ''No active session.'' w0)
      else
        let is_alive = isProcessAlive env w0 (own_prop session ''pid'') in
        case and_next
               (console_log_template
                  (interpolate env ''Session:     '' (own_prop session ''sessionId'') []) w0)
               (\<lambda>_ w.
                  and_next
                    (console_log_template
                       (interpolate env ''Port:        '' (own_prop session ''port'') []) w)
                    (\<lambda>_ w.
                       and_next
                         (console_log_template
                            (interpolate env ''PID:         '' (own_prop session ''pid'')
                               ('' ('' @ (if is_alive then ''running'' else ''DEAD'') @ '')'')) w)
                         (\<lambda>_ w.
                            console_log_template
                              (interpolate env ''Started:     ''
                                 (own_prop session ''startedAt'') []) w))) of
          (Inl e, w) \<Rightarrow> (Threw e, w)
        | (Inr _, w1) \<Rightarrow>
            if is_alive then
              (case getDriver env session of
                 Inl e \<Rightarrow> (Threw e, w1)
               | Inr driver \<Rightarrow>
                   (Returned,
                    snd (and_next (getCurrentUrl env driver (own_prop session ''sessionId'') w1)
                           (\<lambda>url w2.
                              and_next (getTitle env driver (own_prop session ''sessionId'') w2)
                                (\<lambda>title w3.
                                   and_next
                                     (console_log_template
                                        (interpolate env ''Current URL: '' url []) w3)
                                     (\<lambda>_ w4.
                                        console_log_template
                                          (interpolate env ''Page Title:  '' title []) w4))))))
            else (Returned, w1))"

text \<open>The action of \<^verbatim>\<open>back\<close>.\<close>

definition back_command :: "env \<Rightarrow> world \<Rightarrow> outcome \<times> world" where
  "back_command env w0 =
     (case requireSession env w0 of
        (None, w1) \<Rightarrow> (Exited 1, w1)
      | (Some session, w1) \<Rightarrow>
          (case getDriver env session of
             Inl e \<Rightarrow> (Threw e, w1)
           | Inr driver \<Rightarrow>
               (case driver_back env driver (own_prop session ''sessionId'') w1 of
                  (Inl e, w2) \<Rightarrow> (Threw e, w2)
                | (Inr _, w2) \<Rightarrow> (Returned, console_log ''Navigated back.'' w2))))"

text \<open>\<^verbatim>\<open>main\<close>, around the action of the command that \<^verbatim>\<open>program.parseAsync\<close> runs:
  the global error handler. \<^verbatim>\<open>err.message || err\<close> prints an error without a
  message by its name.\<close>

definition main :: "env \<Rightarrow> (world \<Rightarrow> outcome \<times> world) \<Rightarrow> world \<Rightarrow> outcome \<times> world" where
  "main env action w0 =
     (case action w0 of
        (Threw err, w1) \<Rightarrow>
          (case err of
             WebDriverError_thrown e \<Rightarrow>
               (let w2 = console_error (''Error: '' @ message e) w1 in
                if webdriverError e = Some (JStr ''invalid session id'') then
                  (Exited 1,
                   clearSession env
                     (console_error
                        ''Session is stale. Run `safari-cli stop` then `safari-cli start`.'' w2))
                else (Exited 1, w2))
           | JSError name msg \<Rightarrow>
               (Exited 1, console_error (''Error: '' @ (if msg \<noteq> [] then msg else name)) w1))
      | (Returned, w1) \<Rightarrow> (Returned, w1)
      | (Exited code, w1) \<Rightarrow> (Exited code, w1)
      | (Killed, w1) \<Rightarrow> (Killed, w1))"

section \<open>Notions of the specification\<close>

text \<open>A value "contains a field": it is an object with that key.\<close>

definition has_field :: "jsval \<Rightarrow> string \<Rightarrow> bool" where
  "has_field v k = (case v of JObj kvs \<Rightarrow> k \<in> set (map fst kvs) | _ \<Rightarrow> False)"

text \<open>A property that is a string, or is not there.\<close>

fun string_or_absent :: "jsval \<Rightarrow> bool" where
  "string_or_absent JUndefined = True"
| "string_or_absent (JStr s) = True"
| "string_or_absent v = False"

text \<open>The string a property holds; none where it holds no string.\<close>

fun string_of :: "jsval \<Rightarrow> string" where
  "string_of (JStr s) = s"
| "string_of v = []"

text \<open>A write "to a temporary location followed by an atomic rename" is at least
  this: among the calls made, some other file is renamed to the state file, and the
  state file itself is never written directly.\<close>

fun writes_to :: "string \<Rightarrow> fs_op \<Rightarrow> bool" where
  "writes_to path (WriteFile p data) = (p = path)"
| "writes_to path _ = False"

fun renames_to :: "string \<Rightarrow> fs_op \<Rightarrow> bool" where
  "renames_to path (Rename src dst) = (dst = path \<and> src \<noteq> path)"
| "renames_to path _ = False"

definition atomic_replace :: "string \<Rightarrow> fs_op list \<Rightarrow> bool" where
  "atomic_replace path ops = (list_ex (renames_to path) ops \<and> \<not> list_ex (writes_to path) ops)"

text \<open>No session is persisted: \<^verbatim>\<open>loadSession\<close> gives a value that every command
  takes for no session (\<^verbatim>\<open>if (!session)\<close>).\<close>

definition no_session :: "env \<Rightarrow> world \<Rightarrow> bool" where
  "no_session env w = (\<not> truthy (loadSession env w))"

text \<open>The pid argument of the signal in \<^verbatim>\<open>stop\<close> names the program itself.\<close>

definition signals_itself :: "env \<Rightarrow> world \<Rightarrow> jsval \<Rightarrow> bool" where
  "signals_itself env w pid =
     (case process_pid env pid of None \<Rightarrow> False | Some n \<Rightarrow> reaches_cli w n)"

text \<open>The characters a decimal numeral is written with.\<close>

definition decimal_digits :: "char set" where
  "decimal_digits = set ''0123456789''"

section \<open>Sample responses\<close>

text \<open>\<^verbatim>\<open>JSON.parse\<close> on the response bodies of the examples below. Every other body the
  examples use (\<^verbatim>\<open>Not Found\<close>, \<^verbatim>\<open>OK\<close>) is not JSON.\<close>

definition parse_examples :: "string \<Rightarrow> jsval option" where
  \<open>parse_examples =
     map_of
       [(''{"value":{"sessionId":"abc123"}}'',
           JObj [(''value'', JObj [(''sessionId'', JStr ''abc123'')])]),
        (''{"value":"https://example.com/"}'',
           JObj [(''value'', JStr ''https://example.com/'')]),
        (''{"value":null}'', JObj [(''value'', JNull)]),
        (''{"value":{"ready":true}}'', JObj [(''value'', JObj [(''ready'', JBool True)])]),
        (''{"value":{"error":"invalid session id","message":"M"}}'',
           JObj [(''value'',
              JObj [(''error'', JStr ''invalid session id''), (''message'', JStr ''M'')])]),
        (''{"value":{"error":"no such element"}}'',
           JObj [(''value'', JObj [(''error'', JStr ''no such element'')])]),
        (''{"value":{"error":null,"result":42}}'',
           JObj [(''value'', JObj [(''error'', JNull), (''result'', JNum 42)])]),
        (''{"value":{"error":"unknown error","message":""}}'',
           JObj [(''value'',
              JObj [(''error'', JStr ''unknown error''), (''message'', JStr [])])]),
        (''{"value":{"error":"unknown error","message":{"toString":1}}}'',
           JObj [(''value'',
              JObj [(''error'', JStr ''unknown error''),
                    (''message'', JObj [(''toString'', JNum 1)])])]),
        (''{"value":{"element-6066-11e4-a52e-4f735466cecf":"E1"}}'',
           JObj [(''value'', JObj [(''element-6066-11e4-a52e-4f735466cecf'', JStr ''E1'')])]),
        (''{"value":{"ELEMENT":"E1"}}'', JObj [(''value'', JObj [(''ELEMENT'', JStr ''E1'')])]),
        (''{"value":[{"element-6066-11e4-a52e-4f735466cecf":"E1"},{"ELEMENT":"E2"}]}'',
           JObj [(''value'',
              JArr [JObj [(''element-6066-11e4-a52e-4f735466cecf'', JStr ''E1'')],
                    JObj [(''ELEMENT'', JStr ''E2'')]])])]\<close>

text \<open>
  The state file as \<^verbatim>\<open>saveSession\<close> writes it for the session \<^verbatim>\<open>abc123\<close> on port
  9515, \<^verbatim>\<open>JSON.stringify(state, null, 2)\<close>, with a given text for the pid; and the value
  it parses to, with a given value for the pid.
\<close>

definition session_text :: "string \<Rightarrow> string" where
  \<open>session_text pid_text =
     ''{'' @ [CHR 0x0A] @
     ''  "port": 9515,'' @ [CHR 0x0A] @
     ''  "sessionId": "abc123",'' @ [CHR 0x0A] @
     ''  "pid": '' @ pid_text @ '','' @ [CHR 0x0A] @
     ''  "startedAt": "2026-01-01T00:00:00.000Z"'' @ [CHR 0x0A] @
     ''}''\<close>

definition session_with :: "jsval \<Rightarrow> jsval" where
  "session_with pid =
     JObj [(''port'', JNum 9515),
           (''sessionId'', JStr ''abc123''),
           (''pid'', pid),
           (''startedAt'', JStr ''2026-01-01T00:00:00.000Z'')]"

text \<open>The session of a driver with pid 4242.\<close>

definition session_json :: string where
  "session_json = session_text ''4242''"

definition session_value :: jsval where
  "session_value = session_with (JNum 4242)"

text \<open>State files edited by hand: the pid as the string \<^verbatim>\<open>"2537"\<close>, and the pid 0.\<close>

definition session_json_string_pid :: string where
  \<open>session_json_string_pid = session_text ''"2537"''\<close>

definition session_json_pid_zero :: string where
  "session_json_pid_zero = session_text ''0''"

text \<open>
  A driver for the examples. Its port refuses connections until 600 ms have passed
  and answers the status probe from then on; it creates the session \<^verbatim>\<open>abc123\<close>;
  it refuses the connection of a \<^verbatim>\<open>DELETE\<close>; and it answers every other call with
  the error \<^verbatim>\<open>invalid session id\<close>.
\<close>

definition fetch_example :: "nat \<Rightarrow> string \<Rightarrow> string \<Rightarrow> jsval option \<Rightarrow> nat \<times> fetch_result" where
  \<open>fetch_example t method url body =
     (if url = ''http://localhost:9515/status'' then
        (if t < 600 then (0, Rejected ''fetch failed'')
         else (5, Resolved \<lparr>status = 200, text_body = BodyText ''{"value":{"ready":true}}''\<rparr>))
      else if method = ''POST'' \<and> url = ''http://localhost:9515/session'' then
        (10, Resolved \<lparr>status = 200,
                        text_body = BodyText ''{"value":{"sessionId":"abc123"}}''\<rparr>)
      else if method = ''DELETE'' then (0, Rejected ''fetch failed'')
      else
        (3, Resolved \<lparr>status = 404,
              text_body =
                BodyText ''{"value":{"error":"invalid session id","message":"M"}}''\<rparr>))\<close>

text \<open>How an integer below \<^verbatim>\<open>1e21\<close> in size prints: a sign and decimal digits.\<close>

definition show_int :: "int \<Rightarrow> string" where
  "show_int i = (if i < 0 then CHR ''-'' # show_nat (nat (- i)) else show_nat (nat i))"

text \<open>
  The environment of the examples: \<^verbatim>\<open>JSON.parse\<close> and \<^verbatim>\<open>JSON.stringify\<close> on the texts
  and the one record the examples use, numbers (all small integers) in decimal, the
  one string the examples convert to a number, timers that fire on time, a fixed date,
  a \<^verbatim>\<open>spawn\<close> that gives pid 4242, and signals that arrive.
\<close>

definition env_example :: env where
  "env_example =
     \<lparr>homedir = ''/Users/me'',
      JSON_parse =
        (\<lambda>s. case parse_examples s of
               Some v \<Rightarrow> Some v
             | None \<Rightarrow>
                 if s = session_json @ [CHR 0x0A] then Some session_value
                 else if s = session_json_string_pid @ [CHR 0x0A] then
                   Some (session_with (JStr ''2537''))
                 else if s = session_json_pid_zero @ [CHR 0x0A] then
                   Some (session_with (JNum 0))
                 else None),
      JSON_stringify = (\<lambda>v. if v = session_value then session_json else ''null''),
      Number_toString = (\<lambda>n. show_int \<lfloor>n\<rfloor>),
      StringToNumber = (\<lambda>s. if s = ''2537'' then Some 2537 else None),
      fetch = fetch_example,
      timer_late = (\<lambda>t. 0),
      toISOString = (\<lambda>t. ''2026-01-01T00:00:00.000Z''),
      spawn_pid = (\<lambda>t argv. Some 4242),
      kill_fails = (\<lambda>t pid. False)\<rparr>"

text \<open>The driver of the examples.\<close>

definition driver_example :: WebDriver where
  "driver_example = \<lparr>baseUrl = ''http://localhost:9515''\<rparr>"

text \<open>A world with no state directory and no driver, and worlds with the state file
  of the session above: the driver running, and the driver gone. The program itself
  runs as process 7001, in a process group of its own.\<close>

definition world_empty :: world where
  "world_empty =
     \<lparr>dir_exists = False, state_file = Absent, writable = True, fs_log = [],
      cli_pid = 7001, cli_pgid = 7001,
      alive = {}, spawned = [], console = [], now = 0\<rparr>"

definition world_running :: world where
  "world_running =
     \<lparr>dir_exists = True, state_file = Content (session_json @ [CHR 0x0A]), writable = True,
      fs_log = [], cli_pid = 7001, cli_pgid = 7001,
      alive = {4242}, spawned = [], console = [], now = 0\<rparr>"

definition world_dead :: world where
  "world_dead = world_running\<lparr>alive := {}\<rparr>"

text \<open>The world after the first start of the examples.\<close>

definition world_started :: world where
  "world_started =
     \<lparr>dir_exists = True,
      state_file = Content (session_json @ [CHR 0x0A]),
      writable = True,
      fs_log = [Mkdir ''/Users/me/.safari-cli'',
                WriteFile ''/Users/me/.safari-cli/session.json'' (session_json @ [CHR 0x0A])],
      cli_pid = 7001, cli_pgid = 7001,
      alive = {4242},
      spawned = [[''safaridriver'', ''-p'', ''9515'']],
      console =
        [(Stderr, ''Starting safaridriver on port 9515...''),
         (Stdout, ''Safari session started''),
         (Stdout, ''  Port:      9515''),
         (Stdout, ''  Session:   abc123''),
         (Stdout, ''  PID:       4242'')],
      now = 615\<rparr>"

section \<open>Properties of the values\<close>

lemma and_then_Inr: "and_then (Inr x) f = f x"
  by (simp add: and_then_def)

lemma and_then_Inl: "and_then (Inl e) f = Inl e"
  by (simp add: and_then_def)

lemma first_key_Cons: "first_key (k # ks) = k"
  by (simp add: first_key_def)

lemma digit_nth: "n < 10 \<Longrightarrow> ''0123456789'' ! n \<in> decimal_digits"
  unfolding decimal_digits_def by (rule nth_mem) simp

lemma show_nat_digits: "set (show_nat n) \<subseteq> decimal_digits"
proof (induction n rule: show_nat.induct)
  case (1 n)
  show ?case
  proof (cases "n < 10")
    case True
    then have "show_nat n = [''0123456789'' ! n]"
      by (simp add: show_nat.simps[of n])
    then show ?thesis using digit_nth[OF True] by simp
  next
    case False
    then have eq: "show_nat n = show_nat (n div 10) @ [''0123456789'' ! (n mod 10)]"
      by (simp add: show_nat.simps[of n])
    have "n mod 10 < 10" by simp
    from digit_nth[OF this] 1[OF False] show ?thesis
      unfolding eq by simp
  qed
qed

lemma find_show_nat_None:
  "\<not> set k \<subseteq> decimal_digits \<Longrightarrow> find (\<lambda>i. show_nat i = k) xs = None"
  using show_nat_digits by (induction xs) auto

text \<open>A key that is neither an index nor \<^verbatim>\<open>length\<close> reads as \<^verbatim>\<open>undefined\<close> from
  every value that is not an object holding it.\<close>

lemma own_prop_absent:
  assumes "\<not> has_field v k" and "\<not> set k \<subseteq> decimal_digits" and "k \<noteq> ''length''"
  shows "own_prop v k = JUndefined"
proof (cases v)
  case (JObj kvs)
  with assms(1) have "map_of kvs k = None"
    by (simp add: has_field_def map_of_eq_None_iff)
  with JObj show ?thesis by simp
qed (use assms in \<open>simp_all add: find_show_nat_None\<close>)

lemma own_prop_error_absent: "\<not> has_field v ''error'' \<Longrightarrow> own_prop v ''error'' = JUndefined"
  by (rule own_prop_absent) (simp_all add: decimal_digits_def)

lemma own_prop_error_truthy: "truthy (own_prop v ''error'') \<Longrightarrow> \<exists>kvs. v = JObj kvs"
  using own_prop_error_absent[of v] by (cases v) (auto simp: has_field_def)

text \<open>The one thing a conversion to a string throws is the TypeError of an object
  whose \<^verbatim>\<open>toString\<close> is not the inherited one.\<close>

lemma ToString_throws:
  "ToString env v = Inl e \<longrightarrow>
     e = JSError ''TypeError'' ''Cannot convert object to primitive value''"
  "join_elements env xs = Inl e \<longrightarrow>
     e = JSError ''TypeError'' ''Cannot convert object to primitive value''"
  "element_string env x = Inl e \<longrightarrow>
     e = JSError ''TypeError'' ''Cannot convert object to primitive value''"
  by (induction env v and env xs and env x rule: ToString_join_elements_element_string.induct)
    (auto simp: and_then_def split: sum.splits if_splits)

lemma ToString_not_WebDriverError: "ToString env v \<noteq> Inl (WebDriverError_thrown e)"
  using ToString_throws(1)[of env v "WebDriverError_thrown e"] by auto

section \<open>Properties of \<^verbatim>\<open>request\<close>\<close>

text \<open>What \<^const>\<open>request\<close> does with a body that parses, to anything but
  \<^verbatim>\<open>null\<close>: it throws when \<^verbatim>\<open>value.error\<close> is truthy and returns \<^verbatim>\<open>value\<close>
  otherwise. (For the body \<^verbatim>\<open>null\<close>, reading \<^verbatim>\<open>json.value\<close> throws a TypeError.)\<close>

lemma request_json:
  assumes "JSON_parse env text = Some json" and "json \<noteq> JUndefined" and "json \<noteq> JNull"
  shows "request env this (Resolved \<lparr>status = st, text_body = BodyText text\<rparr>) =
       (let v = own_prop json ''value'' in
        if truthy (own_prop v ''error'') then
          and_then
            (ToString env (if truthy (own_prop v ''message'') then own_prop v ''message''
                           else own_prop v ''error''))
            (\<lambda>m. Inl (WebDriverError_thrown
                   \<lparr>message = m, statusCode = Some st,
                    webdriverError = Some (own_prop v ''error'')\<rparr>))
        else Inr v)"
  using assms own_prop_error_truthy[of "own_prop json ''value''"]
  by (auto simp: request_def get_prop_def and_then_Inr Let_def)

lemma request_json_null:
  "JSON_parse env text = Some JNull \<Longrightarrow>
     request env this (Resolved \<lparr>status = st, text_body = BodyText text\<rparr>) =
       Inl (JSError ''TypeError''
         (''Cannot read properties of null (reading '' @ quoted ''value'' @ '')''))"
  by (simp add: request_def get_prop_def and_then_def)


text \<open>The texts of the examples parse as the table of examples says.\<close>

lemma JSON_parse_example:
  "parse_examples text = Some json \<Longrightarrow> JSON_parse env_example text = Some json"
  by (simp add: env_example_def)

lemma JSON_parse_not_json:
  "JSON_parse env_example ''OK'' = None"
  "JSON_parse env_example ''Not Found'' = None"
  by (simp_all add: env_example_def parse_examples_def session_json_def
      session_json_string_pid_def session_json_pid_zero_def session_text_def)

lemma JSON_parse_session:
  "JSON_parse env_example (session_json @ [CHR 0x0A]) = Some session_value"
  \<open>JSON_parse env_example (session_json_string_pid @ [CHR 0x0A]) =
     Some (session_with (JStr ''2537''))\<close>
  "JSON_parse env_example (session_json_pid_zero @ [CHR 0x0A]) = Some (session_with (JNum 0))"
  by (simp_all add: env_example_def parse_examples_def session_json_def
      session_json_string_pid_def session_json_pid_zero_def session_text_def)

text \<open>
  C1. A response whose body parses as JSON (to anything but \<^verbatim>\<open>null\<close>, which is no
  envelope) and whose \<^verbatim>\<open>value\<close> does not contain an \<^verbatim>\<open>error\<close> field makes
  \<^const>\<open>request\<close> return exactly \<^verbatim>\<open>value\<close>, whatever the status code, an object and a
  scalar alike; a body that is not JSON, received with a success status, is returned
  as the plain text. The envelope itself is never returned.
\<close>

theorem request_passthrough:
  "(JSON_parse env text = Some json \<and> json \<noteq> JUndefined \<and> json \<noteq> JNull \<and>
      \<not> has_field (own_prop json ''value'') ''error'' \<longrightarrow>
      request env this (Resolved \<lparr>status = st, text_body = BodyText text\<rparr>)
        = Inr (own_prop json ''value'')) \<and>
   (JSON_parse env text = None \<and> ok \<lparr>status = st, text_body = BodyText text\<rparr> \<longrightarrow>
      request env this (Resolved \<lparr>status = st, text_body = BodyText text\<rparr>) = Inr (JStr text))"
proof (intro conjI impI)
  assume "JSON_parse env text = Some json \<and> json \<noteq> JUndefined \<and> json \<noteq> JNull \<and>
      \<not> has_field (own_prop json ''value'') ''error''"
  then show "request env this (Resolved \<lparr>status = st, text_body = BodyText text\<rparr>)
        = Inr (own_prop json ''value'')"
    by (simp add: request_json own_prop_error_absent)
next
  assume "JSON_parse env text = None \<and> ok \<lparr>status = st, text_body = BodyText text\<rparr>"
  then show "request env this (Resolved \<lparr>status = st, text_body = BodyText text\<rparr>)
        = Inr (JStr text)"
    by (simp add: request_def)
qed

text \<open>An object payload, a scalar payload, a \<^verbatim>\<open>null\<close> payload and a plain-text
  body.\<close>

theorem request_passthrough_witness:
  \<open>request env_example driver_example
      (Resolved \<lparr>status = 200, text_body = BodyText ''{"value":{"sessionId":"abc123"}}''\<rparr>)
      = Inr (JObj [(''sessionId'', JStr ''abc123'')]) \<and>
    request env_example driver_example
      (Resolved \<lparr>status = 200, text_body = BodyText ''{"value":"https://example.com/"}''\<rparr>)
      = Inr (JStr ''https://example.com/'') \<and>
    request env_example driver_example
      (Resolved \<lparr>status = 200, text_body = BodyText ''{"value":null}''\<rparr>)
      = Inr JNull \<and>
    request env_example driver_example
      (Resolved \<lparr>status = 200, text_body = BodyText ''OK''\<rparr>)
      = Inr (JStr ''OK'')\<close>
proof -
  let ?d = driver_example
  have a: \<open>request env_example ?d
      (Resolved \<lparr>status = 200, text_body = BodyText ''{"value":{"sessionId":"abc123"}}''\<rparr>)
      = Inr (JObj [(''sessionId'', JStr ''abc123'')])\<close>
    using request_passthrough[of env_example \<open>''{"value":{"sessionId":"abc123"}}''\<close>
        "JObj [(''value'', JObj [(''sessionId'', JStr ''abc123'')])]" ?d 200]
    by (simp add: JSON_parse_example parse_examples_def has_field_def)
  have b: \<open>request env_example ?d
      (Resolved \<lparr>status = 200, text_body = BodyText ''{"value":"https://example.com/"}''\<rparr>)
      = Inr (JStr ''https://example.com/'')\<close>
    using request_passthrough[of env_example \<open>''{"value":"https://example.com/"}''\<close>
        "JObj [(''value'', JStr ''https://example.com/'')]" ?d 200]
    by (simp add: JSON_parse_example parse_examples_def has_field_def)
  have c: \<open>request env_example ?d
      (Resolved \<lparr>status = 200, text_body = BodyText ''{"value":null}''\<rparr>) = Inr JNull\<close>
    using request_passthrough[of env_example \<open>''{"value":null}''\<close>
        "JObj [(''value'', JNull)]" ?d 200]
    by (simp add: JSON_parse_example parse_examples_def has_field_def)
  have d: \<open>request env_example ?d (Resolved \<lparr>status = 200, text_body = BodyText ''OK''\<rparr>)
      = Inr (JStr ''OK'')\<close>
    using request_passthrough[of env_example "''OK''" _ ?d 200]
    by (simp add: JSON_parse_not_json ok_def)
  from a b c d show ?thesis by blast
qed


text \<open>
  C2, as the code has it. \<^const>\<open>request\<close> tests \<^verbatim>\<open>json.value.error\<close> for truthiness,
  not for presence, and takes for the message \<^verbatim>\<open>value.message\<close> when that is truthy
  and \<^verbatim>\<open>value.error\<close> otherwise, converted to a string. When \<^verbatim>\<open>value.error\<close> is truthy
  (such a \<^verbatim>\<open>value\<close> is an object containing an \<^verbatim>\<open>error\<close> field) and the conversion gives
  a string, it throws a \<^verbatim>\<open>WebDriverError\<close> with that string for its message, the HTTP
  status code, and \<^verbatim>\<open>value.error\<close> as the protocol error code. In particular, when
  \<^verbatim>\<open>value.error\<close> is a string that is not empty and \<^verbatim>\<open>value.message\<close> is a string or is
  absent, the message is \<^verbatim>\<open>value.message\<close> when that is a string that is not empty and
  \<^verbatim>\<open>value.error\<close> otherwise. When \<^verbatim>\<open>value.error\<close> is absent or falsy (\<^verbatim>\<open>null\<close>,
  \<^verbatim>\<open>false\<close>, \<^verbatim>\<open>0\<close>, the empty string), \<^verbatim>\<open>value\<close> is returned.
\<close>

theorem request_protocol_error:
  "(JSON_parse env text = Some json \<and> json \<noteq> JUndefined \<and> json \<noteq> JNull \<and>
      v = own_prop json ''value'' \<and> truthy (own_prop v ''error'') \<and>
      ToString env (if truthy (own_prop v ''message'') then own_prop v ''message''
                    else own_prop v ''error'') = Inr m \<longrightarrow>
      has_field v ''error'' \<and>
      request env this (Resolved \<lparr>status = st, text_body = BodyText text\<rparr>) =
        Inl (WebDriverError_thrown
          \<lparr>message = m, statusCode = Some st,
           webdriverError = Some (own_prop v ''error'')\<rparr>)) \<and>
   (JSON_parse env text = Some json \<and> json \<noteq> JUndefined \<and> json \<noteq> JNull \<and>
      v = own_prop json ''value'' \<and> own_prop v ''error'' = JStr code \<and> code \<noteq> [] \<and>
      string_or_absent (own_prop v ''message'') \<longrightarrow>
      request env this (Resolved \<lparr>status = st, text_body = BodyText text\<rparr>) =
        Inl (WebDriverError_thrown
          \<lparr>message = (if string_of (own_prop v ''message'') \<noteq> []
                       then string_of (own_prop v ''message'') else code),
           statusCode = Some st,
           webdriverError = Some (JStr code)\<rparr>)) \<and>
   (JSON_parse env text = Some json \<and> json \<noteq> JUndefined \<and> json \<noteq> JNull \<and>
      v = own_prop json ''value'' \<and> \<not> truthy (own_prop v ''error'') \<longrightarrow>
      request env this (Resolved \<lparr>status = st, text_body = BodyText text\<rparr>) = Inr v)"
proof (intro conjI impI)
  assume a: "JSON_parse env text = Some json \<and> json \<noteq> JUndefined \<and> json \<noteq> JNull \<and>
      v = own_prop json ''value'' \<and> truthy (own_prop v ''error'') \<and>
      ToString env (if truthy (own_prop v ''message'') then own_prop v ''message''
                    else own_prop v ''error'') = Inr m"
  then have p: "JSON_parse env text = Some json" "json \<noteq> JUndefined" "json \<noteq> JNull"
    and v: "v = own_prop json ''value''"
    and e: "truthy (own_prop v ''error'')"
    and m: "ToString env (if truthy (own_prop v ''message'') then own_prop v ''message''
                    else own_prop v ''error'') = Inr m"
    by blast+
  from e have "own_prop v ''error'' \<noteq> JUndefined"
    by auto
  then show "has_field v ''error''"
    using own_prop_error_absent[of v] by blast
  show "request env this (Resolved \<lparr>status = st, text_body = BodyText text\<rparr>) =
        Inl (WebDriverError_thrown
          \<lparr>message = m, statusCode = Some st,
           webdriverError = Some (own_prop v ''error'')\<rparr>)"
    using e m unfolding v request_json[OF p] by (simp add: Let_def and_then_Inr)
next
  assume a: "JSON_parse env text = Some json \<and> json \<noteq> JUndefined \<and> json \<noteq> JNull \<and>
      v = own_prop json ''value'' \<and> own_prop v ''error'' = JStr code \<and> code \<noteq> [] \<and>
      string_or_absent (own_prop v ''message'')"
  then have p: "JSON_parse env text = Some json" "json \<noteq> JUndefined" "json \<noteq> JNull"
    and v: "v = own_prop json ''value''"
    and e: "own_prop v ''error'' = JStr code" "code \<noteq> []"
    and m: "string_or_absent (own_prop v ''message'')"
    by blast+
  have r: "request env this (Resolved \<lparr>status = st, text_body = BodyText text\<rparr>) =
      and_then
        (ToString env (if truthy (own_prop v ''message'') then own_prop v ''message''
                       else JStr code))
        (\<lambda>m. Inl (WebDriverError_thrown
               \<lparr>message = m, statusCode = Some st, webdriverError = Some (JStr code)\<rparr>))"
    using e unfolding v request_json[OF p] by (simp add: Let_def)
  show "request env this (Resolved \<lparr>status = st, text_body = BodyText text\<rparr>) =
        Inl (WebDriverError_thrown
          \<lparr>message = (if string_of (own_prop v ''message'') \<noteq> []
                       then string_of (own_prop v ''message'') else code),
           statusCode = Some st,
           webdriverError = Some (JStr code)\<rparr>)"
  proof (cases "truthy (own_prop v ''message'')")
    case True
    with m have "ToString env (own_prop v ''message'') = Inr (string_of (own_prop v ''message''))"
      and "string_of (own_prop v ''message'') \<noteq> []"
      by (cases "own_prop v ''message''"; simp)+
    with True show ?thesis
      unfolding r by (simp add: and_then_Inr)
  next
    case False
    with m have "string_of (own_prop v ''message'') = []"
      by (cases "own_prop v ''message''") simp_all
    with False show ?thesis
      unfolding r by (simp add: and_then_Inr)
  qed
next
  assume "JSON_parse env text = Some json \<and> json \<noteq> JUndefined \<and> json \<noteq> JNull \<and>
      v = own_prop json ''value'' \<and> \<not> truthy (own_prop v ''error'')"
  then show "request env this (Resolved \<lparr>status = st, text_body = BodyText text\<rparr>) = Inr v"
    by (auto simp: request_json Let_def)
qed


text \<open>An error with a message, an error without one, and a payload without an error
  code.\<close>

theorem request_protocol_error_witness:
  \<open>request env_example driver_example
      (Resolved \<lparr>status = 404,
         text_body = BodyText ''{"value":{"error":"invalid session id","message":"M"}}''\<rparr>)
      = Inl (WebDriverError_thrown
          \<lparr>message = ''M'', statusCode = Some 404,
           webdriverError = Some (JStr ''invalid session id'')\<rparr>) \<and>
    request env_example driver_example
      (Resolved \<lparr>status = 404, text_body = BodyText ''{"value":{"error":"no such element"}}''\<rparr>)
      = Inl (WebDriverError_thrown
          \<lparr>message = ''no such element'', statusCode = Some 404,
           webdriverError = Some (JStr ''no such element'')\<rparr>) \<and>
    request env_example driver_example
      (Resolved \<lparr>status = 200, text_body = BodyText ''{"value":{"sessionId":"abc123"}}''\<rparr>)
      = Inr (JObj [(''sessionId'', JStr ''abc123'')])\<close>
proof -
  let ?d = driver_example
  have a: \<open>request env_example ?d
      (Resolved \<lparr>status = 404,
         text_body = BodyText ''{"value":{"error":"invalid session id","message":"M"}}''\<rparr>)
      = Inl (WebDriverError_thrown
          \<lparr>message = ''M'', statusCode = Some 404,
           webdriverError = Some (JStr ''invalid session id'')\<rparr>)\<close>
    using request_protocol_error[of env_example
        \<open>''{"value":{"error":"invalid session id","message":"M"}}''\<close>
        "JObj [(''value'',
           JObj [(''error'', JStr ''invalid session id''), (''message'', JStr ''M'')])]"
        "JObj [(''error'', JStr ''invalid session id''), (''message'', JStr ''M'')]"
        "''M''" ?d 404, THEN conjunct1]
    by (simp add: JSON_parse_example parse_examples_def)
  have b: \<open>request env_example ?d
      (Resolved \<lparr>status = 404, text_body = BodyText ''{"value":{"error":"no such element"}}''\<rparr>)
      = Inl (WebDriverError_thrown
          \<lparr>message = ''no such element'', statusCode = Some 404,
           webdriverError = Some (JStr ''no such element'')\<rparr>)\<close>
    using request_protocol_error[of env_example
        \<open>''{"value":{"error":"no such element"}}''\<close>
        "JObj [(''value'', JObj [(''error'', JStr ''no such element'')])]"
        "JObj [(''error'', JStr ''no such element'')]" _ ?d 404 "''no such element''",
        THEN conjunct2, THEN conjunct1]
    by (simp add: JSON_parse_example parse_examples_def)
  have c: \<open>request env_example ?d
      (Resolved \<lparr>status = 200, text_body = BodyText ''{"value":{"sessionId":"abc123"}}''\<rparr>)
      = Inr (JObj [(''sessionId'', JStr ''abc123'')])\<close>
    using request_protocol_error[of env_example
        \<open>''{"value":{"sessionId":"abc123"}}''\<close>
        "JObj [(''value'', JObj [(''sessionId'', JStr ''abc123'')])]"
        "JObj [(''sessionId'', JStr ''abc123'')]" _ ?d 200,
        THEN conjunct2, THEN conjunct2]
    by (simp add: JSON_parse_example parse_examples_def)
  from a b c show ?thesis by blast
qed


text \<open>
  C2 as stated fails. A \<^verbatim>\<open>value\<close> that is an object containing an \<^verbatim>\<open>error\<close> field whose
  value is \<^verbatim>\<open>null\<close> (the result of a script, say) is returned, not thrown; and an error
  whose \<^verbatim>\<open>message\<close> is present but empty gets the error code for its message.
\<close>

theorem request_error_field_counterexample:
  \<open>has_field (JObj [(''error'', JNull), (''result'', JNum 42)]) ''error'' \<and>
    request env_example driver_example
      (Resolved \<lparr>status = 200, text_body = BodyText ''{"value":{"error":null,"result":42}}''\<rparr>)
      = Inr (JObj [(''error'', JNull), (''result'', JNum 42)]) \<and>
    has_field (JObj [(''error'', JStr ''unknown error''), (''message'', JStr [])]) ''message'' \<and>
    request env_example driver_example
      (Resolved \<lparr>status = 500,
         text_body = BodyText ''{"value":{"error":"unknown error","message":""}}''\<rparr>)
      = Inl (WebDriverError_thrown
          \<lparr>message = ''unknown error'', statusCode = Some 500,
           webdriverError = Some (JStr ''unknown error'')\<rparr>)\<close>
  by (simp add: has_field_def request_json JSON_parse_example parse_examples_def and_then_Inr)


text \<open>Where the message does not convert to a string, the error of the conversion
  leaves \<^const>\<open>request\<close>, and no \<^verbatim>\<open>WebDriverError\<close> is made: so for a message that is
  an object with a key \<^verbatim>\<open>toString\<close>.\<close>

lemma request_message_not_converted:
  assumes "JSON_parse env text = Some json" and "json \<noteq> JUndefined" and "json \<noteq> JNull"
    and "truthy (own_prop (own_prop json ''value'') ''error'')"
    and "ToString env
           (if truthy (own_prop (own_prop json ''value'') ''message'')
            then own_prop (own_prop json ''value'') ''message''
            else own_prop (own_prop json ''value'') ''error'') = Inl e"
  shows "request env this (Resolved \<lparr>status = st, text_body = BodyText text\<rparr>) = Inl e"
  using assms(4,5) unfolding request_json[OF assms(1-3)] by (simp add: Let_def and_then_Inl)

lemma request_message_not_converted_example:
  \<open>request env_example driver_example
      (Resolved \<lparr>status = 500,
         text_body =
           BodyText ''{"value":{"error":"unknown error","message":{"toString":1}}}''\<rparr>)
      = Inl (JSError ''TypeError'' ''Cannot convert object to primitive value'')\<close>
  by (simp add: request_json JSON_parse_example parse_examples_def and_then_Inl)

text \<open>
  C3. When the body is not JSON, a status outside 200 to 299 makes \<^const>\<open>request\<close>
  throw a \<^verbatim>\<open>WebDriverError\<close> with that status code, no protocol error code, and the
  message \<^verbatim>\<open>HTTP <status>: <body>\<close>, which carries the raw body; a success status makes
  it return the body as plain text.
\<close>

theorem request_non_json:
  "JSON_parse env text = None \<longrightarrow>
     request env this (Resolved \<lparr>status = st, text_body = BodyText text\<rparr>) =
       (if ok \<lparr>status = st, text_body = BodyText text\<rparr> then Inr (JStr text)
        else Inl (WebDriverError_thrown
               \<lparr>message = ''HTTP '' @ show_nat st @ '': '' @ text,
                statusCode = Some st, webdriverError = None\<rparr>))"
  by (simp add: request_def)

text \<open>HTTP 404 with the body \<^verbatim>\<open>Not Found\<close>, and HTTP 200 with the body \<^verbatim>\<open>OK\<close>.\<close>

theorem request_non_json_witness:
  "request env_example driver_example
      (Resolved \<lparr>status = 404, text_body = BodyText ''Not Found''\<rparr>)
      = Inl (WebDriverError_thrown
          \<lparr>message = ''HTTP 404: Not Found'', statusCode = Some 404, webdriverError = None\<rparr>) \<and>
   request env_example driver_example
      (Resolved \<lparr>status = 200, text_body = BodyText ''OK''\<rparr>) = Inr (JStr ''OK'')"
proof -
  let ?d = driver_example
  have a: "request env_example ?d (Resolved \<lparr>status = 404, text_body = BodyText ''Not Found''\<rparr>)
      = Inl (WebDriverError_thrown
          \<lparr>message = ''HTTP 404: Not Found'', statusCode = Some 404, webdriverError = None\<rparr>)"
    using request_non_json[of env_example "''Not Found''" ?d 404]
    by (simp add: JSON_parse_not_json ok_def show_nat.simps)
  have b: "request env_example ?d (Resolved \<lparr>status = 200, text_body = BodyText ''OK''\<rparr>)
      = Inr (JStr ''OK'')"
    using request_non_json[of env_example "''OK''" ?d 200]
    by (simp add: JSON_parse_not_json ok_def)
  from a b show ?thesis by blast
qed

section \<open>Element references\<close>

lemma map_throwing_single_key:
  "map_throwing (\<lambda>r. and_then (Object_keys r) (\<lambda>keys. Inr (own_prop r (first_key keys))))
     (map (\<lambda>(k, v). JObj [(k, v)]) refs) = Inr (map snd refs)"
  by (induction refs) (auto simp: and_then_Inr first_key_Cons)

text \<open>
  C4. When \<^verbatim>\<open>findElement\<close>'s request returns a reference object with a single key,
  whatever the key's name, \<^const>\<open>findElement\<close> returns the value under that key; when
  \<^verbatim>\<open>findElements\<close>'s request returns a list of such objects, \<^const>\<open>findElements\<close>
  returns the list of their values, each taken the same way; and two reference
  objects that hold the same identifier under different key names give the same
  result.
\<close>

theorem find_element_any_key:
  "(request env this fetched = Inr (JObj [(k, v)]) \<longrightarrow>
      findElement env this fetched = Inr v) \<and>
   (request env this fetched = Inr (JArr (map (\<lambda>(k, v). JObj [(k, v)]) refs)) \<longrightarrow>
      findElements env this fetched = Inr (map snd refs)) \<and>
   (request env this fetched = Inr (JObj [(k, v)]) \<and>
    request env this fetched' = Inr (JObj [(k', v)]) \<longrightarrow>
      findElement env this fetched = findElement env this fetched')"
  by (simp add: findElement_def findElements_def and_then_Inr first_key_Cons
      map_throwing_single_key)

text \<open>The W3C key and the legacy key \<^verbatim>\<open>ELEMENT\<close>, alone and in a list.\<close>

theorem find_element_any_key_witness:
  \<open>findElement env_example driver_example
      (Resolved \<lparr>status = 200,
         text_body = BodyText ''{"value":{"element-6066-11e4-a52e-4f735466cecf":"E1"}}''\<rparr>)
      = Inr (JStr ''E1'') \<and>
    findElement env_example driver_example
      (Resolved \<lparr>status = 200, text_body = BodyText ''{"value":{"ELEMENT":"E1"}}''\<rparr>)
      = Inr (JStr ''E1'') \<and>
    findElements env_example driver_example
      (Resolved \<lparr>status = 200,
         text_body = BodyText
           ''{"value":[{"element-6066-11e4-a52e-4f735466cecf":"E1"},{"ELEMENT":"E2"}]}''\<rparr>)
      = Inr [JStr ''E1'', JStr ''E2'']\<close>
proof -
  let ?d = driver_example
  let ?f1 = \<open>Resolved \<lparr>status = 200,
         text_body = BodyText ''{"value":{"element-6066-11e4-a52e-4f735466cecf":"E1"}}''\<rparr>\<close>
  let ?f2 = \<open>Resolved \<lparr>status = 200, text_body = BodyText ''{"value":{"ELEMENT":"E1"}}''\<rparr>\<close>
  let ?f3 = \<open>Resolved \<lparr>status = 200,
         text_body = BodyText
           ''{"value":[{"element-6066-11e4-a52e-4f735466cecf":"E1"},{"ELEMENT":"E2"}]}''\<rparr>\<close>
  have r1: "request env_example ?d ?f1 =
      Inr (JObj [(''element-6066-11e4-a52e-4f735466cecf'', JStr ''E1'')])"
    by (simp add: request_json JSON_parse_example parse_examples_def)
  have r2: "request env_example ?d ?f2 = Inr (JObj [(''ELEMENT'', JStr ''E1'')])"
    by (simp add: request_json JSON_parse_example parse_examples_def)
  have r3: "request env_example ?d ?f3 =
      Inr (JArr (map (\<lambda>(k, v). JObj [(k, v)])
        [(''element-6066-11e4-a52e-4f735466cecf'', JStr ''E1''), (''ELEMENT'', JStr ''E2'')]))"
    by (simp add: request_json JSON_parse_example parse_examples_def show_nat.simps)
  from find_element_any_key[of env_example ?d ?f1
      "''element-6066-11e4-a52e-4f735466cecf''" "JStr ''E1''"] r1
  have a: "findElement env_example ?d ?f1 = Inr (JStr ''E1'')" by blast
  from find_element_any_key[of env_example ?d ?f2 "''ELEMENT''" "JStr ''E1''"] r2
  have b: "findElement env_example ?d ?f2 = Inr (JStr ''E1'')" by blast
  from find_element_any_key[of env_example ?d ?f3 _ _
      "[(''element-6066-11e4-a52e-4f735466cecf'', JStr ''E1''), (''ELEMENT'', JStr ''E2'')]"] r3
  have c: "findElements env_example ?d ?f3 = Inr [JStr ''E1'', JStr ''E2'']" by simp
  from a b c show ?thesis by blast
qed

section \<open>Connection failures\<close>

text \<open>
  C5. When the \<^verbatim>\<open>fetch\<close> rejects, \<^const>\<open>request\<close> throws a \<^verbatim>\<open>WebDriverError\<close> whose
  message holds the base address and the cause's text, and which has neither a status
  code nor a protocol error code. Every \<^verbatim>\<open>WebDriverError\<close> thrown for a response that
  did arrive has that response's status code, and nothing a response leads to is what
  a rejection leads to: a rejection is never an HTTP-level error nor a return.
\<close>

theorem request_connection_error:
  "request env this (Rejected cause) =
     Inl (WebDriverError_thrown
       \<lparr>message = ''Cannot connect to SafariDriver at '' @ baseUrl this @ '': '' @ cause,
        statusCode = None, webdriverError = None\<rparr>) \<and>
   (\<forall>response e. request env this (Resolved response) = Inl (WebDriverError_thrown e)
      \<longrightarrow> statusCode e = Some (status response)) \<and>
   (\<forall>response. request env this (Resolved response) \<noteq> request env this (Rejected cause))"
  by (auto simp: request_def get_prop_def and_then_def ToString_not_WebDriverError
      split: body.splits option.splits if_splits sum.splits)

text \<open>A refused connection to port 9515, and the 404 response for comparison.\<close>

theorem request_connection_error_witness:
  "request env_example driver_example (Rejected ''fetch failed'') =
     Inl (WebDriverError_thrown
       \<lparr>message = ''Cannot connect to SafariDriver at http://localhost:9515: fetch failed'',
        statusCode = None, webdriverError = None\<rparr>) \<and>
   request env_example driver_example
      (Resolved \<lparr>status = 404, text_body = BodyText ''Not Found''\<rparr>)
      = Inl (WebDriverError_thrown
          \<lparr>message = ''HTTP 404: Not Found'', statusCode = Some 404, webdriverError = None\<rparr>) \<and>
   statusCode \<lparr>message = ''HTTP 404: Not Found'', statusCode = Some 404, webdriverError = None\<rparr>
      = Some (status \<lparr>status = 404, text_body = BodyText ''Not Found''\<rparr>)"
proof -
  let ?d = driver_example
  let ?r = "\<lparr>status = 404, text_body = BodyText ''Not Found''\<rparr>"
  let ?e = "\<lparr>message = ''HTTP 404: Not Found'', statusCode = Some 404, webdriverError = None\<rparr>"
  note rejected = request_connection_error[of env_example ?d "''fetch failed''"]
  have url: "baseUrl ?d = ''http://localhost:9515''"
    by (simp add: driver_example_def)
  from rejected have a: "request env_example ?d (Rejected ''fetch failed'') =
     Inl (WebDriverError_thrown
       \<lparr>message = ''Cannot connect to SafariDriver at http://localhost:9515: fetch failed'',
        statusCode = None, webdriverError = None\<rparr>)"
    by (simp add: url)
  have b: "request env_example ?d (Resolved ?r) = Inl (WebDriverError_thrown ?e)"
    by (simp add: request_def JSON_parse_not_json ok_def show_nat.simps)
  from rejected b have c: "statusCode ?e = Some (status ?r)"
    by blast
  from a b c show ?thesis by blast
qed

section \<open>Properties of the session file\<close>

lemma loadSession_state_file:
  "state_file w' = state_file w \<Longrightarrow> loadSession env w' = loadSession env w"
  by (simp add: loadSession_def loadSession_try_def readFileSync_def)

lemma loadSession_truthy_Content:
  "truthy (loadSession env w) \<Longrightarrow> \<exists>raw. state_file w = Content raw"
  by (cases "state_file w")
     (auto simp: loadSession_def loadSession_try_def readFileSync_def and_then_def)

lemma clearSession_writable:
  "writable w \<Longrightarrow>
     clearSession env w =
       (if state_file w = Absent then w
        else w\<lparr>state_file := Absent, fs_log := fs_log w @ [Unlink (STATE_FILE env)]\<rparr>)"
  by (simp add: clearSession_def unlinkSync_def)

lemma clearSession_read_only: "\<not> writable w \<Longrightarrow> clearSession env w = w"
  by (simp add: clearSession_def unlinkSync_def)

lemma no_session_clearSession: "writable w \<Longrightarrow> no_session env (clearSession env w)"
  by (simp add: clearSession_writable no_session_def loadSession_def loadSession_try_def)

text \<open>
  C10. \<^const>\<open>loadSession\<close> returns a value for every state of the state file. When the
  file is absent it returns \<^verbatim>\<open>null\<close>; when the file cannot be read, or its content is
  not JSON, the body of the \<^verbatim>\<open>try\<close> throws and \<^const>\<open>loadSession\<close> still returns
  \<^verbatim>\<open>null\<close>. Such a file behaves as no file does: \<^const>\<open>loadSession\<close> gives the same, and
  \<^const>\<open>requireSession\<close> prints the same line and exits with status 1.
\<close>

theorem loadSession_never_throws:
  "(state_file w = Absent \<longrightarrow> loadSession env w = JNull) \<and>
   (state_file w = Unreadable \<longrightarrow>
      loadSession_try env w = Inl (JSError ''Error'' ''EACCES: permission denied'') \<and>
      loadSession env w = JNull) \<and>
   (state_file w = Content raw \<and> JSON_parse env raw = None \<longrightarrow>
      loadSession_try env w = Inl (JSError ''SyntaxError'' ''Unexpected token in JSON'') \<and>
      loadSession env w = JNull) \<and>
   (state_file w = Unreadable \<or> (state_file w = Content raw \<and> JSON_parse env raw = None) \<longrightarrow>
      loadSession env w = loadSession env (w\<lparr>state_file := Absent\<rparr>) \<and>
      requireSession env w =
        (None, console_error ''No active Safari session. Run `safari-cli start` first.'' w) \<and>
      requireSession env (w\<lparr>state_file := Absent\<rparr>) =
        (None, console_error ''No active Safari session. Run `safari-cli start` first.''
                 (w\<lparr>state_file := Absent\<rparr>)))"
  by (auto simp: loadSession_def loadSession_try_def readFileSync_def and_then_def
      requireSession_def)

text \<open>No file, an unreadable file, and a file cut off in the middle.\<close>

theorem loadSession_never_throws_witness:
  \<open>loadSession env_example world_empty = JNull \<and>
    loadSession env_example (world_running\<lparr>state_file := Unreadable\<rparr>) = JNull \<and>
    loadSession env_example (world_running\<lparr>state_file := Content ''{ "port": 95''\<rparr>) = JNull \<and>
    fst (requireSession env_example (world_running\<lparr>state_file := Content ''{ "port": 95''\<rparr>))
      = None\<close>
proof -
  have p: \<open>JSON_parse env_example ''{ "port": 95'' = None\<close>
    by (simp add: env_example_def parse_examples_def session_json_def
        session_json_string_pid_def session_json_pid_zero_def session_text_def)
  have a: "loadSession env_example world_empty = JNull"
    using loadSession_never_throws[of world_empty env_example]
    by (simp add: world_empty_def)
  have b: "loadSession env_example (world_running\<lparr>state_file := Unreadable\<rparr>) = JNull"
    using loadSession_never_throws[of "world_running\<lparr>state_file := Unreadable\<rparr>" env_example]
    by simp
  have c: \<open>loadSession env_example (world_running\<lparr>state_file := Content ''{ "port": 95''\<rparr>)
      = JNull\<close>
    using loadSession_never_throws[of
        \<open>world_running\<lparr>state_file := Content ''{ "port": 95''\<rparr>\<close> env_example
        \<open>''{ "port": 95''\<close>] p
    by simp
  have d: \<open>fst (requireSession env_example
      (world_running\<lparr>state_file := Content ''{ "port": 95''\<rparr>)) = None\<close>
    using loadSession_never_throws[of
        \<open>world_running\<lparr>state_file := Content ''{ "port": 95''\<rparr>\<close> env_example
        \<open>''{ "port": 95''\<close>] p
    by simp
  from a b c d show ?thesis by blast
qed

text \<open>
  C8, as the code has it. \<^const>\<open>saveSession\<close> creates the state directory when it is not
  there and then writes the state file itself, with one \<^verbatim>\<open>writeFileSync\<close> of
  \<^verbatim>\<open>JSON.stringify(state, null, 2)\<close> and a newline: it writes no other file and renames
  nothing.
\<close>

theorem saveSession_writes_in_place:
  "writable w \<and> state_file w \<noteq> Unreadable \<longrightarrow>
     saveSession env state w =
       Inr (w\<lparr>dir_exists := True,
              state_file := Content (JSON_stringify env state @ [CHR 0x0A]),
              fs_log := fs_log w @ (if dir_exists w then [] else [Mkdir (STATE_DIR env)]) @
                        [WriteFile (STATE_FILE env) (JSON_stringify env state @ [CHR 0x0A])]\<rparr>) \<and>
     \<not> atomic_replace (STATE_FILE env)
         ((if dir_exists w then [] else [Mkdir (STATE_DIR env)]) @
          [WriteFile (STATE_FILE env) (JSON_stringify env state @ [CHR 0x0A])])"
  by (cases w)
     (auto simp: saveSession_def mkdirSync_def writeFileSync_def and_then_def atomic_replace_def)

text \<open>Saving the session \<^verbatim>\<open>abc123\<close> where there is no state directory yet.\<close>

theorem saveSession_writes_in_place_witness:
  "saveSession env_example session_value world_empty =
     Inr (world_empty
       \<lparr>dir_exists := True,
        state_file := Content (session_json @ [CHR 0x0A]),
        fs_log := [Mkdir ''/Users/me/.safari-cli'',
                   WriteFile ''/Users/me/.safari-cli/session.json''
                     (session_json @ [CHR 0x0A])]\<rparr>)"
  using saveSession_writes_in_place[of world_empty env_example session_value]
  by (simp add: world_empty_def env_example_def STATE_DIR_def STATE_FILE_def)

text \<open>
  C8 as stated fails: the calls \<^const>\<open>saveSession\<close> makes are a \<^verbatim>\<open>mkdirSync\<close> and a
  \<^verbatim>\<open>writeFileSync\<close> of the state file; no temporary file is renamed over it.
\<close>

theorem saveSession_atomic_counterexample:
  "saveSession env_example session_value world_running =
     Inr (world_running
       \<lparr>fs_log := [WriteFile ''/Users/me/.safari-cli/session.json''
                     (session_json @ [CHR 0x0A])]\<rparr>) \<and>
   \<not> atomic_replace ''/Users/me/.safari-cli/session.json''
       [WriteFile ''/Users/me/.safari-cli/session.json'' (session_json @ [CHR 0x0A])]"
  by (simp add: saveSession_def writeFileSync_def and_then_def atomic_replace_def
      world_running_def env_example_def STATE_DIR_def STATE_FILE_def)


section \<open>The examples\<close>

lemma Number_toString_example:
  "Number_toString env_example 9515 = ''9515''"
  "Number_toString env_example 4242 = ''4242''"
  "Number_toString env_example 2537 = ''2537''"
  "Number_toString env_example 0 = ''0''"
  by (simp_all add: env_example_def show_int_def show_nat.simps)

lemma own_prop_session_with:
  "own_prop (session_with pid) ''port'' = JNum 9515"
  "own_prop (session_with pid) ''sessionId'' = JStr ''abc123''"
  "own_prop (session_with pid) ''pid'' = pid"
  "own_prop (session_with pid) ''startedAt'' = JStr ''2026-01-01T00:00:00.000Z''"
  "truthy (session_with pid)"
  by (simp_all add: session_with_def)

lemma getDriver_session_with: "getDriver env_example (session_with pid) = Inr driver_example"
  by (simp add: getDriver_def new_WebDriver_def own_prop_session_with and_then_Inr
      Number_toString_example driver_example_def)

lemma loadSession_world_running:
  "JSON_parse env = JSON_parse env_example \<Longrightarrow> state_file w = state_file world_running \<Longrightarrow>
     loadSession env w = session_value"
  by (simp add: loadSession_def loadSession_try_def readFileSync_def and_then_def
      world_running_def JSON_parse_session)

section \<open>Properties of the commands\<close>

lemma deleteSession_world:
  "\<exists>t. snd (deleteSession env this sessionId w) = w\<lparr>now := t\<rparr>"
proof (cases "ToString env sessionId")
  case (Inl e)
  then have "snd (deleteSession env this sessionId w) = w\<lparr>now := now w\<rparr>"
    by (simp add: deleteSession_def)
  then show ?thesis by blast
next
  case (Inr sid)
  then show ?thesis
    by (auto simp: deleteSession_def this_request_def split: prod.splits)
qed

lemma process_kill_world:
  "process_kill env pid w = Signalled w' \<Longrightarrow> \<exists>a. w' = w\<lparr>alive := a\<rparr>"
  by (auto simp: process_kill_def split: option.splits if_splits)

lemma reaches_cli_now: "reaches_cli (w\<lparr>now := t\<rparr>) n = reaches_cli w n"
  by (simp add: reaches_cli_def)

lemma process_kill_CliTerminated:
  "process_kill env pid w = CliTerminated \<longleftrightarrow> signals_itself env w pid"
  by (auto simp: process_kill_def signals_itself_def split: option.splits)

lemma signals_itself_now: "signals_itself env (w\<lparr>now := t\<rparr>) pid = signals_itself env w pid"
  by (simp add: signals_itself_def reaches_cli_now split: option.splits)

text \<open>What \<^const>\<open>stop\<close> does when there is a session. It does not get past the
  construction of the driver when the recorded port does not convert to a string; it
  ends in the signal when the signal reaches the program itself; and otherwise,
  whatever the delete and the signal did, it ends with \<^const>\<open>clearSession\<close> and the
  closing line, on a world whose files nothing has touched.\<close>

lemma stop_session:
  assumes "truthy (loadSession env w)"
  shows "(\<exists>e. getDriver env (loadSession env w) = Inl e \<and> stop env w = (Threw e, w)) \<or>
         (signals_itself env w (own_prop (loadSession env w) ''pid'') \<and>
            (\<exists>t. stop env w = (Killed, w\<lparr>now := t\<rparr>))) \<or>
         (\<exists>w2. stop env w = (Returned, console_log ''Session closed.'' (clearSession env w2)) \<and>
            state_file w2 = state_file w \<and> writable w2 = writable w \<and> fs_log w2 = fs_log w)"
proof (cases "getDriver env (loadSession env w)")
  case (Inl e)
  with assms show ?thesis
    by (simp add: stop_def Let_def)
next
  case (Inr driver)
  let ?pid = "own_prop (loadSession env w) ''pid''"
  obtain r w1 where d: "deleteSession env driver (own_prop (loadSession env w) ''sessionId'') w
      = (r, w1)"
    by (cases "deleteSession env driver (own_prop (loadSession env w) ''sessionId'') w")
  then obtain t where w1: "w1 = w\<lparr>now := t\<rparr>"
    using deleteSession_world[of env driver "own_prop (loadSession env w) ''sessionId''" w]
    by auto
  show ?thesis
  proof (cases "isProcessAlive env w1 ?pid")
    case False
    with assms Inr d have "stop env w = (Returned, console_log ''Session closed.''
        (clearSession env w1))"
      by (simp add: stop_def Let_def close_session_def)
    with w1 show ?thesis
      by (intro disjI2 exI[of _ w1]) simp
  next
    case True
    show ?thesis
    proof (cases "process_kill env ?pid w1")
      case CliTerminated
      then have "signals_itself env w ?pid"
        using process_kill_CliTerminated[of env ?pid w1] w1 by (simp add: signals_itself_now)
      moreover from CliTerminated True assms Inr d have "stop env w = (Killed, w1)"
        by (simp add: stop_def Let_def)
      ultimately show ?thesis using w1 by blast
    next
      case (KillThrew e)
      with True assms Inr d have "stop env w = (Returned, console_log ''Session closed.''
          (clearSession env w1))"
        by (simp add: stop_def Let_def close_session_def)
      with w1 show ?thesis
        by (intro disjI2 exI[of _ w1]) simp
    next
      case (Signalled w')
      then obtain a where w': "w' = w1\<lparr>alive := a\<rparr>"
        using process_kill_world by blast
      let ?w2 = "snd (console_log_template
                        (interpolate env ''Stopped safaridriver (pid='' ?pid '')'') w')"
      from Signalled True assms Inr d
      have "stop env w = (Returned, console_log ''Session closed.'' (clearSession env ?w2))"
        by (simp add: stop_def Let_def close_session_def)
      moreover have "state_file ?w2 = state_file w \<and> writable ?w2 = writable w \<and>
          fs_log ?w2 = fs_log w"
        using w' w1
        by (cases "interpolate env ''Stopped safaridriver (pid='' ?pid '')''")
           (simp_all add: console_log_template_def console_log_def)
      ultimately show ?thesis by blast
    qed
  qed
qed

text \<open>The failures of the best-effort steps do not keep \<^const>\<open>stop\<close> from returning:
  it returns whenever it got its driver and its signal is not one that reaches the
  program itself.\<close>

lemma stop_returns:
  assumes "getDriver env (loadSession env w) = Inr driver"
    and "\<not> signals_itself env w (own_prop (loadSession env w) ''pid'')"
  shows "fst (stop env w) = Returned"
proof (cases "truthy (loadSession env w)")
  case False
  then show ?thesis by (simp add: stop_def)
next
  case True
  from stop_session[OF True] assms show ?thesis by auto
qed

text \<open>
  C7, as the code has it. When there is a session, \<^const>\<open>stop\<close> returns whenever it
  got its driver (the recorded port converts to a string) and its signal does not
  reach the program itself (the recorded pid is not 0, nor the pid of the program, nor
  the negative of its process group), whatever the protocol-level delete, the liveness
  of the process and the signal did. Whenever \<^const>\<open>stop\<close> returns, it ended with
  \<^const>\<open>clearSession\<close>: where the file system accepts changes, the state file is then
  gone, its unlinking is the last change made to the file system, and no session is
  persisted; where it does not, \<^const>\<open>clearSession\<close> ignores the failure and the state
  file stays.
\<close>

theorem stop_clears_session:
  "(truthy (loadSession env w) \<and> getDriver env (loadSession env w) = Inr driver \<and>
    \<not> signals_itself env w (own_prop (loadSession env w) ''pid'') \<longrightarrow>
      fst (stop env w) = Returned) \<and>
   (fst (stop env w) = Returned \<and> writable w \<longrightarrow> no_session env (snd (stop env w))) \<and>
   (fst (stop env w) = Returned \<and> writable w \<and> truthy (loadSession env w) \<longrightarrow>
      state_file (snd (stop env w)) = Absent \<and>
      fs_log (snd (stop env w)) = fs_log w @ [Unlink (STATE_FILE env)]) \<and>
   (\<not> writable w \<longrightarrow> state_file (snd (stop env w)) = state_file w)"
proof (cases "truthy (loadSession env w)")
  case False
  then have "stop env w = (Returned, console_log ''No active session.'' w)"
    by (simp add: stop_def)
  with False show ?thesis
    by (simp add: no_session_def console_log_def
        loadSession_state_file[of "w\<lparr>console := console w @ [(Stdout, ''No active session.'')]\<rparr>" w])
next
  case True
  from loadSession_truthy_Content[OF True] obtain raw where raw: "state_file w = Content raw"
    by blast
  have first: "getDriver env (loadSession env w) = Inr driver \<and>
      \<not> signals_itself env w (own_prop (loadSession env w) ''pid'') \<longrightarrow>
      fst (stop env w) = Returned"
    using stop_returns[of env w driver] by blast
  from stop_session[OF True] consider
    (threw) e where "stop env w = (Threw e, w)"
    | (killed) t where "stop env w = (Killed, w\<lparr>now := t\<rparr>)"
    | (returned) w2 where
      "stop env w = (Returned, console_log ''Session closed.'' (clearSession env w2))"
      "state_file w2 = state_file w" "writable w2 = writable w" "fs_log w2 = fs_log w"
    by blast
  then show ?thesis
  proof cases
    case threw
    with first show ?thesis by simp
  next
    case killed
    with first show ?thesis by simp
  next
    case returned
    show ?thesis
    proof (cases "writable w")
      case True
      with returned raw first show ?thesis
        by (simp add: clearSession_writable console_log_def no_session_def
            loadSession_def loadSession_try_def)
    next
      case False
      with returned first show ?thesis
        by (simp add: clearSession_read_only console_log_def)
    qed
  qed
qed

text \<open>The delete fails and the driver runs; the driver is gone already; the signal
  fails; the state directory rejects changes.\<close>

theorem stop_clears_session_witness:
  "writable world_running \<and> truthy (loadSession env_example world_running) \<and>
   fetch_example 0 ''DELETE'' ''http://localhost:9515/session/abc123'' None
     = (0, Rejected ''fetch failed'') \<and>
   \<not> signals_itself env_example world_running (JNum 4242) \<and>
   fst (stop env_example world_running) = Returned \<and>
   state_file (snd (stop env_example world_running)) = Absent \<and>
   no_session env_example (snd (stop env_example world_running)) \<and>
   \<not> isProcessAlive env_example world_dead (JNum 4242) \<and>
   fst (stop env_example world_dead) = Returned \<and>
   state_file (snd (stop env_example world_dead)) = Absent \<and>
   fst (stop (env_example\<lparr>kill_fails := \<lambda>t pid. True\<rparr>) world_running) = Returned \<and>
   state_file (snd (stop (env_example\<lparr>kill_fails := \<lambda>t pid. True\<rparr>) world_running)) = Absent \<and>
   state_file (snd (stop env_example (world_running\<lparr>writable := False\<rparr>))) =
     state_file world_running"
proof -
  let ?env' = "env_example\<lparr>kill_fails := \<lambda>t pid. True\<rparr>"
  have l: "loadSession env_example world_running = session_value"
    "loadSession env_example world_dead = session_value"
    "loadSession ?env' world_running = session_value"
    by (simp_all add: loadSession_world_running world_dead_def)
  have t: "truthy session_value" "own_prop session_value ''pid'' = JNum 4242"
    by (simp_all add: session_value_def own_prop_session_with)
  have g: "getDriver env_example session_value = Inr driver_example"
    "getDriver ?env' session_value = Inr driver_example"
    by (simp_all add: session_value_def getDriver_def new_WebDriver_def own_prop_session_with
        and_then_Inr driver_example_def env_example_def show_int_def show_nat.simps)
  have w: "writable world_running" "writable world_dead"
    by (simp_all add: world_running_def world_dead_def)
  have f: "fetch_example 0 ''DELETE'' ''http://localhost:9515/session/abc123'' None
     = (0, Rejected ''fetch failed'')"
    by (simp add: fetch_example_def)
  have d: "\<not> isProcessAlive env_example world_dead (JNum 4242)"
    by (simp add: isProcessAlive_def process_pid_def int32_def kill_finds_def reaches_cli_def
        world_dead_def world_running_def)
  have s: "\<not> signals_itself env_example world_running (JNum 4242)"
    "\<not> signals_itself env_example world_dead (JNum 4242)"
    "\<not> signals_itself ?env' world_running (JNum 4242)"
    by (simp_all add: signals_itself_def process_pid_def int32_def reaches_cli_def
        world_dead_def world_running_def)
  note running = stop_clears_session[of env_example world_running driver_example]
  note dead = stop_clears_session[of env_example world_dead driver_example]
  note fails = stop_clears_session[of ?env' world_running driver_example]
  from running l t g s have a1: "fst (stop env_example world_running) = Returned"
    by simp
  from running a1 w l t have a2: "state_file (snd (stop env_example world_running)) = Absent"
    "no_session env_example (snd (stop env_example world_running))"
    by simp_all
  from dead l t g s have b1: "fst (stop env_example world_dead) = Returned"
    by simp
  from dead b1 w l t have b2: "state_file (snd (stop env_example world_dead)) = Absent"
    by simp
  from fails l t g s have c1: "fst (stop ?env' world_running) = Returned"
    by simp
  from fails c1 w l t have c2: "state_file (snd (stop ?env' world_running)) = Absent"
    by simp
  from stop_clears_session[of env_example "world_running\<lparr>writable := False\<rparr>" driver_example]
  have r: "state_file (snd (stop env_example (world_running\<lparr>writable := False\<rparr>))) =
      state_file world_running"
    by simp
  from w l t f s d a1 a2 b1 b2 c1 c2 r show ?thesis by simp
qed

text \<open>
  C7 as stated fails where the state file cannot be removed (a state directory that
  has become read-only): \<^const>\<open>stop\<close> completes, the state file is still there and
  \<^const>\<open>loadSession\<close> still gives the session.
\<close>

theorem stop_read_only_counterexample:
  "fst (stop env_example (world_running\<lparr>writable := False\<rparr>)) = Returned \<and>
   state_file (snd (stop env_example (world_running\<lparr>writable := False\<rparr>)))
     = Content (session_json @ [CHR 0x0A]) \<and>
   loadSession env_example (snd (stop env_example (world_running\<lparr>writable := False\<rparr>)))
     = session_value \<and>
   \<not> no_session env_example (snd (stop env_example (world_running\<lparr>writable := False\<rparr>)))"
proof -
  let ?w = "world_running\<lparr>writable := False\<rparr>"
  have l: "loadSession env_example ?w = session_value"
    by (simp add: loadSession_world_running)
  have t: "truthy session_value" "own_prop session_value ''pid'' = JNum 4242"
    by (simp_all add: session_value_def own_prop_session_with)
  have g: "getDriver env_example session_value = Inr driver_example"
    by (simp add: session_value_def getDriver_session_with)
  have s: "\<not> signals_itself env_example ?w (JNum 4242)"
    by (simp add: signals_itself_def process_pid_def int32_def reaches_cli_def world_running_def)
  from stop_session[of env_example ?w] l t g s obtain w2 where
    s: "stop env_example ?w = (Returned, console_log ''Session closed.'' (clearSession env_example w2))"
    and f: "state_file w2 = state_file ?w" "writable w2 = writable ?w"
    by auto
  from f have c: "clearSession env_example w2 = w2"
    by (simp add: clearSession_read_only world_running_def)
  have st: "state_file (snd (stop env_example ?w)) = Content (session_json @ [CHR 0x0A])"
    using s c f by (simp add: console_log_def world_running_def)
  then have "loadSession env_example (snd (stop env_example ?w)) = loadSession env_example ?w"
    by (intro loadSession_state_file) (simp add: world_running_def)
  with l t s st show ?thesis
    by (simp add: no_session_def)
qed

text \<open>A state file whose pid is 0 (edited by hand): the probe of \<^verbatim>\<open>isProcessAlive\<close>
  finds the process group of the program, the signal of \<^const>\<open>stop\<close> goes to that
  group and terminates the program before \<^const>\<open>clearSession\<close>, and the state file
  stays.\<close>

lemma stop_pid_zero_example:
  "stop env_example (world_running\<lparr>state_file := Content (session_json_pid_zero @ [CHR 0x0A])\<rparr>)
     = (Killed,
        world_running\<lparr>state_file := Content (session_json_pid_zero @ [CHR 0x0A])\<rparr>)"
proof -
  let ?w = "world_running\<lparr>state_file := Content (session_json_pid_zero @ [CHR 0x0A])\<rparr>"
  have l: "loadSession env_example ?w = session_with (JNum 0)"
    by (simp add: loadSession_def loadSession_try_def readFileSync_def and_then_def
        JSON_parse_session)
  have d: "deleteSession env_example driver_example (JStr ''abc123'') ?w = 
      (Inl (WebDriverError_thrown
         \<lparr>message = ''Cannot connect to SafariDriver at http://localhost:9515: fetch failed'',
          statusCode = None, webdriverError = None\<rparr>), ?w)"
    by (simp add: deleteSession_def this_request_def env_example_def fetch_example_def
        driver_example_def request_def and_then_Inl world_running_def)
  have a: "isProcessAlive env_example ?w (JNum 0)"
    by (simp add: isProcessAlive_def process_pid_def int32_def kill_finds_def reaches_cli_def)
  have k: "process_kill env_example (JNum 0) ?w = CliTerminated"
    by (simp add: process_kill_def process_pid_def int32_def reaches_cli_def)
  show ?thesis
    by (simp add: stop_def Let_def l own_prop_session_with getDriver_session_with d a k)
qed

text \<open>
  C9, as the code has it. When a \<^verbatim>\<open>WebDriverError\<close> with the code
  \<^verbatim>\<open>invalid session id\<close> leaves the action of a command, whichever command it is,
  \<^const>\<open>main\<close> prints the error, prints that the session is stale and how to restart
  it, calls \<^const>\<open>clearSession\<close> and exits with status 1; where the file system accepts
  changes, no session is persisted afterwards. A \<^verbatim>\<open>WebDriverError\<close> with another code
  is printed only. \<^const>\<open>request\<close> throws the error with that code for every response
  whose \<^verbatim>\<open>value.error\<close> is the string \<^verbatim>\<open>invalid session id\<close> and whose
  \<^verbatim>\<open>value.message\<close> converts to a string.
\<close>

theorem main_invalid_session_id:
  "(action w0 = (Threw (WebDriverError_thrown e), w1) \<and>
      webdriverError e = Some (JStr ''invalid session id'') \<longrightarrow>
      main env action w0 =
        (Exited 1,
         clearSession env
           (console_error ''Session is stale. Run `safari-cli stop` then `safari-cli start`.''
              (console_error (''Error: '' @ message e) w1))) \<and>
      (writable w1 \<longrightarrow> no_session env (snd (main env action w0)))) \<and>
   (action w0 = (Threw (WebDriverError_thrown e), w1) \<and>
      webdriverError e \<noteq> Some (JStr ''invalid session id'') \<longrightarrow>
      main env action w0 = (Exited 1, console_error (''Error: '' @ message e) w1)) \<and>
   (JSON_parse env text = Some json \<and> json \<noteq> JUndefined \<and> json \<noteq> JNull \<and>
      own_prop (own_prop json ''value'') ''error'' = JStr ''invalid session id'' \<and>
      ToString env (own_prop (own_prop json ''value'') ''message'') = Inr s \<longrightarrow>
      (\<exists>m. request env this (Resolved \<lparr>status = st, text_body = BodyText text\<rparr>) =
         Inl (WebDriverError_thrown
           \<lparr>message = m, statusCode = Some st,
            webdriverError = Some (JStr ''invalid session id'')\<rparr>)))"
proof (intro conjI impI)
  assume a: "action w0 = (Threw (WebDriverError_thrown e), w1) \<and>
      webdriverError e = Some (JStr ''invalid session id'')"
  then show m: "main env action w0 =
        (Exited 1,
         clearSession env
           (console_error ''Session is stale. Run `safari-cli stop` then `safari-cli start`.''
              (console_error (''Error: '' @ message e) w1)))"
    by (simp add: main_def Let_def)
  assume "writable w1"
  then show "no_session env (snd (main env action w0))"
    by (simp add: m no_session_clearSession console_error_def)
next
  assume "action w0 = (Threw (WebDriverError_thrown e), w1) \<and>
      webdriverError e \<noteq> Some (JStr ''invalid session id'')"
  then show "main env action w0 = (Exited 1, console_error (''Error: '' @ message e) w1)"
    by (simp add: main_def Let_def)
next
  assume "JSON_parse env text = Some json \<and> json \<noteq> JUndefined \<and> json \<noteq> JNull \<and>
      own_prop (own_prop json ''value'') ''error'' = JStr ''invalid session id'' \<and>
      ToString env (own_prop (own_prop json ''value'') ''message'') = Inr s"
  then show "\<exists>m. request env this (Resolved \<lparr>status = st, text_body = BodyText text\<rparr>) =
         Inl (WebDriverError_thrown
           \<lparr>message = m, statusCode = Some st,
            webdriverError = Some (JStr ''invalid session id'')\<rparr>)"
    by (simp add: request_json Let_def and_then_Inr)
qed

text \<open>The command \<^verbatim>\<open>back\<close> on a session the driver no longer knows.\<close>

theorem main_invalid_session_id_witness:
  \<open>back_command env_example world_running =
     (Threw (WebDriverError_thrown
        \<lparr>message = ''M'', statusCode = Some 404,
         webdriverError = Some (JStr ''invalid session id'')\<rparr>),
      world_running\<lparr>now := 3\<rparr>) \<and>
   main env_example (back_command env_example) world_running =
     (Exited 1,
      world_running
        \<lparr>state_file := Absent,
         fs_log := [Unlink ''/Users/me/.safari-cli/session.json''],
         console :=
           [(Stderr, ''Error: M''),
            (Stderr, ''Session is stale. Run `safari-cli stop` then `safari-cli start`.'')],
         now := 3\<rparr>) \<and>
   no_session env_example (snd (main env_example (back_command env_example) world_running)) \<and>
   (\<exists>m. request env_example driver_example
      (Resolved \<lparr>status = 404,
         text_body = BodyText ''{"value":{"error":"invalid session id","message":"M"}}''\<rparr>) =
      Inl (WebDriverError_thrown
        \<lparr>message = m, statusCode = Some 404,
         webdriverError = Some (JStr ''invalid session id'')\<rparr>))\<close>
proof -
  let ?e = "\<lparr>message = ''M'', statusCode = Some 404,
         webdriverError = Some (JStr ''invalid session id'')\<rparr>"
  have l: "loadSession env_example world_running = session_value"
    by (simp add: loadSession_world_running)
  have d: "getDriver env_example session_value = Inr driver_example"
    by (simp add: session_value_def getDriver_session_with)
  have q: \<open>request env_example driver_example
      (Resolved \<lparr>status = 404,
         text_body = BodyText ''{"value":{"error":"invalid session id","message":"M"}}''\<rparr>)
      = Inl (WebDriverError_thrown ?e)\<close>
    by (simp add: request_json JSON_parse_example parse_examples_def and_then_Inr)
  have f: \<open>fetch env_example 0 ''POST'' ''http://localhost:9515/session/abc123/back''
      (Some (JObj [])) =
      (3, Resolved \<lparr>status = 404,
         text_body = BodyText ''{"value":{"error":"invalid session id","message":"M"}}''\<rparr>)\<close>
    by (simp add: env_example_def fetch_example_def)
  have r: "driver_back env_example driver_example (JStr ''abc123'') world_running =
      (Inl (WebDriverError_thrown ?e), world_running\<lparr>now := 3\<rparr>)"
    using f q
    by (simp add: driver_back_def this_request_def driver_example_def and_then_Inl
        world_running_def)
  have b: "back_command env_example world_running =
      (Threw (WebDriverError_thrown ?e), world_running\<lparr>now := 3\<rparr>)"
    by (simp add: back_command_def requireSession_def l d)
       (simp add: session_value_def own_prop_session_with r)
  have w: "writable (world_running\<lparr>now := 3\<rparr>)"
    by (simp add: world_running_def)
  have c: "webdriverError ?e = Some (JStr ''invalid session id'')"
    by simp
  note handled = main_invalid_session_id[of "back_command env_example" world_running ?e
      "world_running\<lparr>now := 3\<rparr>" env_example]
  from handled b c
  have m: "main env_example (back_command env_example) world_running =
        (Exited 1,
         clearSession env_example
           (console_error ''Session is stale. Run `safari-cli stop` then `safari-cli start`.''
              (console_error (''Error: '' @ message ?e) (world_running\<lparr>now := 3\<rparr>))))"
    by blast
  from handled b c w
  have n: "no_session env_example
      (snd (main env_example (back_command env_example) world_running))"
    by blast
  have "clearSession env_example
           (console_error ''Session is stale. Run `safari-cli stop` then `safari-cli start`.''
              (console_error (''Error: '' @ message ?e) (world_running\<lparr>now := 3\<rparr>))) =
      world_running
        \<lparr>state_file := Absent,
         fs_log := [Unlink ''/Users/me/.safari-cli/session.json''],
         console :=
           [(Stderr, ''Error: M''),
            (Stderr, ''Session is stale. Run `safari-cli stop` then `safari-cli start`.'')],
         now := 3\<rparr>"
    by (simp add: clearSession_def unlinkSync_def console_error_def world_running_def
        STATE_FILE_def STATE_DIR_def env_example_def)
  with m n b have first: "back_command env_example world_running =
      (Threw (WebDriverError_thrown ?e), world_running\<lparr>now := 3\<rparr>) \<and>
    main env_example (back_command env_example) world_running =
     (Exited 1,
      world_running
        \<lparr>state_file := Absent,
         fs_log := [Unlink ''/Users/me/.safari-cli/session.json''],
         console :=
           [(Stderr, ''Error: M''),
            (Stderr, ''Session is stale. Run `safari-cli stop` then `safari-cli start`.'')],
         now := 3\<rparr>) \<and>
    no_session env_example (snd (main env_example (back_command env_example) world_running))"
    by simp
  have thrown: \<open>\<exists>m. request env_example driver_example
      (Resolved \<lparr>status = 404,
         text_body = BodyText ''{"value":{"error":"invalid session id","message":"M"}}''\<rparr>) =
      Inl (WebDriverError_thrown
        \<lparr>message = m, statusCode = Some 404,
         webdriverError = Some (JStr ''invalid session id'')\<rparr>)\<close>
    using main_invalid_session_id[of _ _ _ _ env_example
        \<open>''{"value":{"error":"invalid session id","message":"M"}}''\<close>
        "JObj [(''value'',
           JObj [(''error'', JStr ''invalid session id''), (''message'', JStr ''M'')])]"
        "''M''" driver_example 404, THEN conjunct2, THEN conjunct2]
    by (simp add: JSON_parse_example parse_examples_def)
  from first thrown show ?thesis by blast
qed

text \<open>
  C9 as stated fails for a caller that catches the error itself. The command
  \<^verbatim>\<open>status\<close>, on a session whose driver runs but no longer knows the session, gets
  \<^verbatim>\<open>invalid session id\<close> from \<^verbatim>\<open>getCurrentUrl\<close> and ignores it: the command returns, the
  handler of \<^const>\<open>main\<close> does not run, nothing tells the caller to restart, and the
  session stays persisted.
\<close>

theorem status_swallows_counterexample:
  "getDriver env_example session_value = Inr driver_example \<and>
   getCurrentUrl env_example driver_example (JStr ''abc123'')
     (world_running
        \<lparr>console :=
           [(Stdout, ''Session:     abc123''),
            (Stdout, ''Port:        9515''),
            (Stdout, ''PID:         4242 (running)''),
            (Stdout, ''Started:     2026-01-01T00:00:00.000Z'')]\<rparr>) =
     (Inl (WebDriverError_thrown
        \<lparr>message = ''M'', statusCode = Some 404,
         webdriverError = Some (JStr ''invalid session id'')\<rparr>),
      world_running
        \<lparr>console :=
           [(Stdout, ''Session:     abc123''),
            (Stdout, ''Port:        9515''),
            (Stdout, ''PID:         4242 (running)''),
            (Stdout, ''Started:     2026-01-01T00:00:00.000Z'')],
         now := 3\<rparr>) \<and>
   main env_example (status_command env_example) world_running =
     (Returned,
      world_running
        \<lparr>console :=
           [(Stdout, ''Session:     abc123''),
            (Stdout, ''Port:        9515''),
            (Stdout, ''PID:         4242 (running)''),
            (Stdout, ''Started:     2026-01-01T00:00:00.000Z'')],
         now := 3\<rparr>) \<and>
   loadSession env_example (snd (main env_example (status_command env_example) world_running))
     = session_value \<and>
   \<not> no_session env_example (snd (main env_example (status_command env_example) world_running))"
proof -
  let ?e = "\<lparr>message = ''M'', statusCode = Some 404,
         webdriverError = Some (JStr ''invalid session id'')\<rparr>"
  let ?w1 = "world_running
        \<lparr>console :=
           [(Stdout, ''Session:     abc123''),
            (Stdout, ''Port:        9515''),
            (Stdout, ''PID:         4242 (running)''),
            (Stdout, ''Started:     2026-01-01T00:00:00.000Z'')]\<rparr>"
  have l: "loadSession env_example world_running = session_value"
    by (simp add: loadSession_world_running)
  have t: "truthy session_value"
    by (simp add: session_value_def own_prop_session_with)
  have d: "getDriver env_example session_value = Inr driver_example"
    by (simp add: session_value_def getDriver_session_with)
  have q: \<open>request env_example driver_example
      (Resolved \<lparr>status = 404,
         text_body = BodyText ''{"value":{"error":"invalid session id","message":"M"}}''\<rparr>)
      = Inl (WebDriverError_thrown ?e)\<close>
    by (simp add: request_json JSON_parse_example parse_examples_def and_then_Inr)
  have f: \<open>fetch env_example 0 ''GET'' ''http://localhost:9515/session/abc123/url'' None =
      (3, Resolved \<lparr>status = 404,
         text_body = BodyText ''{"value":{"error":"invalid session id","message":"M"}}''\<rparr>)\<close>
    by (simp add: env_example_def fetch_example_def)
  have u: "getCurrentUrl env_example driver_example (JStr ''abc123'') ?w1
      = (Inl (WebDriverError_thrown ?e), ?w1\<lparr>now := 3\<rparr>)"
    using f q
    by (simp add: getCurrentUrl_def this_request_def driver_example_def world_running_def)
  have p: "own_prop session_value ''pid'' = JNum 4242"
    "own_prop session_value ''port'' = JNum 9515"
    "own_prop session_value ''sessionId'' = JStr ''abc123''"
    "own_prop session_value ''startedAt'' = JStr ''2026-01-01T00:00:00.000Z''"
    by (simp_all add: session_value_def own_prop_session_with)
  have a: "isProcessAlive env_example world_running (JNum 4242)"
    by (simp add: isProcessAlive_def process_pid_def int32_def kill_finds_def world_running_def)
  have lines: "and_next
       (console_log_template (interpolate env_example ''Session:     '' (JStr ''abc123'') [])
          world_running)
       (\<lambda>_ w.
          and_next
            (console_log_template (interpolate env_example ''Port:        '' (JNum 9515) []) w)
            (\<lambda>_ w.
               and_next
                 (console_log_template
                    (interpolate env_example ''PID:         '' (JNum 4242)
                       '' (running)'') w)
                 (\<lambda>_ w.
                    console_log_template
                      (interpolate env_example ''Started:     ''
                         (JStr ''2026-01-01T00:00:00.000Z'') []) w))) = (Inr (), ?w1)"
    by (simp add: and_next_def console_log_template_def interpolate_def and_then_Inr
        Number_toString_example console_log_def world_running_def)
  have s: "status_command env_example world_running = (Returned, ?w1\<lparr>now := 3\<rparr>)"
    by (simp add: status_command_def Let_def l t p a lines d u)
       (simp add: and_next_def)
  then have m: "main env_example (status_command env_example) world_running
      = (Returned, ?w1\<lparr>now := 3\<rparr>)"
    by (simp add: main_def)
  have "loadSession env_example (?w1\<lparr>now := 3\<rparr>) = loadSession env_example world_running"
    by (rule loadSession_state_file) simp
  with l t m u d show ?thesis
    by (simp add: no_session_def)
qed

section \<open>Starting a session\<close>

lemma getStatus_world: "\<exists>t. snd (getStatus env this w) = w\<lparr>now := t\<rparr>"
  by (auto simp: getStatus_def this_request_def split: prod.splits)

lemma createSession_world: "\<exists>t. snd (createSession env this w) = w\<lparr>now := t\<rparr>"
  by (auto simp: createSession_def this_request_def split: prod.splits)

text \<open>Waiting for the driver changes nothing but the clock.\<close>

lemma waitForDriver_loop_world:
  "\<exists>t. snd (waitForDriver_loop env driver deadline w) = w\<lparr>now := t\<rparr>"
proof (induction env driver deadline w rule: waitForDriver_loop.induct)
  case (1 env driver deadline w)
  show ?case
  proof (cases "now w < deadline")
    case False
    then have "waitForDriver_loop env driver deadline w = (False, w)"
      by (simp add: waitForDriver_loop.simps[of env driver deadline w])
    then have "snd (waitForDriver_loop env driver deadline w) = w\<lparr>now := now w\<rparr>"
      by simp
    then show ?thesis by blast
  next
    case True
    obtain r w' where g: "getStatus env driver w = (r, w')"
      by (cases "getStatus env driver w")
    then obtain t where w': "w' = w\<lparr>now := t\<rparr>"
      using getStatus_world[of env driver w] by auto
    show ?thesis
    proof (cases r)
      case (Inr v)
      with True g have "waitForDriver_loop env driver deadline w = (True, w')"
        by (simp add: waitForDriver_loop.simps[of env driver deadline w])
      with w' show ?thesis by auto
    next
      case (Inl e)
      with True g have step: "waitForDriver_loop env driver deadline w =
          waitForDriver_loop env driver deadline (setTimeout env 200 w')"
        by (simp add: waitForDriver_loop.simps[of env driver deadline w])
      from "1.IH"[OF True g[symmetric] Inl]
      obtain t' where "snd (waitForDriver_loop env driver deadline (setTimeout env 200 w')) =
          (setTimeout env 200 w')\<lparr>now := t'\<rparr>"
        by blast
      with step w' have "snd (waitForDriver_loop env driver deadline w) = w\<lparr>now := t'\<rparr>"
        by (simp add: setTimeout_def)
      then show ?thesis by blast
    qed
  qed
qed

lemma waitForDriver_world: "\<exists>t. snd (waitForDriver env port timeoutMs w) = w\<lparr>now := t\<rparr>"
proof (cases "new_WebDriver env port")
  case (Inl e)
  then have "snd (waitForDriver env port timeoutMs w) = w\<lparr>now := now w\<rparr>"
    by (simp add: waitForDriver_def)
  then show ?thesis by blast
next
  case (Inr driver)
  obtain b w' where l: "waitForDriver_loop env driver (now w + timeoutMs) w = (b, w')"
    by (cases "waitForDriver_loop env driver (now w + timeoutMs) w")
  then obtain t where "w' = w\<lparr>now := t\<rparr>"
    using waitForDriver_loop_world[of env driver "now w + timeoutMs" w] by auto
  with l Inr show ?thesis
    by (cases b) (auto simp: waitForDriver_def Let_def)
qed

lemma saveSession_Inr:
  assumes "saveSession env state w = Inr w'"
  shows "state_file w' = Content (JSON_stringify env state @ [CHR 0x0A]) \<and>
         spawned w' = spawned w \<and> alive w' = alive w \<and> console w' = console w"
  using assms
  by (auto simp: saveSession_def mkdirSync_def writeFileSync_def and_then_def split: if_splits)

text \<open>A start that finds a live session changes nothing but the lines printed.\<close>

lemma start_reuse:
  assumes "truthy (loadSession env w)"
    and "isProcessAlive env w (own_prop (loadSession env w) ''pid'')"
  shows "start env port w =
           (case session_active_line env (loadSession env w) of
              Inl e \<Rightarrow> (Threw e, w)
            | Inr line \<Rightarrow> (Returned, console_log line w))"
  using assms
  by (cases "session_active_line env (loadSession env w)")
     (simp_all add: start_def Let_def console_log_template_def)

text \<open>A start that finds no live session and returns has spawned one driver, has saved
  the record of the session it created, and has printed that session's id.\<close>

lemma start_fresh:
  assumes fresh: "\<not> (truthy (loadSession env w0) \<and>
                      isProcessAlive env w0 (own_prop (loadSession env w0) ''pid''))"
    and ret: "start env port w0 = (Returned, w1)"
  shows "\<exists>sid s pid iso.
           ToString env sid = Inr s \<and>
           state_file w1 =
             Content (JSON_stringify env
               (JObj [(''port'', JNum (real_of_int port)), (''sessionId'', sid),
                      (''pid'', JNum (real_of_int pid)), (''startedAt'', JStr iso)]) @
               [CHR 0x0A]) \<and>
           spawned w1 =
             spawned w0 @ [[''safaridriver'', ''-p'', Number_toString env (real_of_int port)]] \<and>
           (Stdout, ''  Session:   '' @ s) \<in> set (console w1) \<and>
           pid \<in> alive w1"
proof -
  let ?port = "Number_toString env (real_of_int port)"
  let ?argv = "[''safaridriver'', ''-p'', ?port]"
  let ?w1 = "console_error (''Starting safaridriver on port '' @ ?port @ ''...'') w0"
  obtain child w2 where sp: "spawn env ?argv ?w1 = (child, w2)"
    by (cases "spawn env ?argv ?w1")
  from sp have w2: "spawned w2 = spawned w0 @ [?argv]"
    "alive w2 = (case child of None \<Rightarrow> alive w0 | Some p \<Rightarrow> insert p (alive w0))"
    by (auto simp: spawn_def Let_def console_error_def split: option.splits)
  obtain pid where child: "child = Some pid"
    using fresh ret sp by (cases child) (auto simp: start_def Let_def)
  obtain r3 w3 where wt: "waitForDriver env (JNum (real_of_int port)) 10000 w2 = (r3, w3)"
    by (cases "waitForDriver env (JNum (real_of_int port)) 10000 w2")
  then obtain t3 where w3: "w3 = w2\<lparr>now := t3\<rparr>"
    using waitForDriver_world[of env "JNum (real_of_int port)" 10000 w2] by auto
  have no_exit: "kill_and_exit env p w \<noteq> (Returned, w')" for p w w'
    by (auto simp: kill_and_exit_def split: kill_result.splits)
  from fresh ret sp child wt obtain u where r3: "r3 = Inr u"
    by (cases r3) (auto simp: start_def Let_def no_exit split: if_splits)
  from fresh ret sp child wt r3 obtain driver where
    dr: "new_WebDriver env (JNum (real_of_int port)) = Inr driver"
    by (cases "new_WebDriver env (JNum (real_of_int port))")
       (auto simp: start_def Let_def split: if_splits)
  obtain r4 w4 where cs: "createSession env driver w3 = (r4, w4)"
    by (cases "createSession env driver w3")
  then obtain t4 where w4: "w4 = w3\<lparr>now := t4\<rparr>"
    using createSession_world[of env driver w3] by auto
  from fresh ret sp child wt r3 dr cs obtain sid where r4: "r4 = Inr sid"
    by (cases r4) (auto simp: start_def Let_def no_exit split: if_splits)
  let ?state = "JObj [(''port'', JNum (real_of_int port)), (''sessionId'', sid),
                      (''pid'', JNum (real_of_int pid)),
                      (''startedAt'', JStr (toISOString env (now w4)))]"
  from fresh ret sp child wt r3 dr cs r4 obtain w5 where
    sv: "saveSession env ?state w4 = Inr w5"
    by (cases "saveSession env ?state w4") (auto simp: start_def Let_def split: if_splits)
  let ?w6 = "console_log (''  Port:      '' @ ?port) (console_log ''Safari session started'' w5)"
  from fresh ret sp child wt r3 dr cs r4 sv have lines:
    "(case and_next (console_log_template (interpolate env ''  Session:   '' sid []) ?w6)
             (\<lambda>_ w6. console_log_template
                        (interpolate env ''  PID:       '' (JNum (real_of_int pid)) []) w6) of
        (Inl e, w) \<Rightarrow> (Threw e, w)
      | (Inr _, w) \<Rightarrow> (Returned, w)) = (Returned, w1)"
    by (auto simp: start_def Let_def split: if_splits)
  then obtain s where s: "ToString env sid = Inr s"
    by (cases "ToString env sid")
       (auto simp: and_next_def console_log_template_def interpolate_def and_then_def)
  with lines have w1: "w1 = console_log (''  PID:       '' @ Number_toString env (real_of_int pid))
                (console_log (''  Session:   '' @ s) ?w6)"
    by (simp add: and_next_def console_log_template_def interpolate_def and_then_def)
  from saveSession_Inr[OF sv] w4 w3 w2 child
  have "state_file w5 = Content (JSON_stringify env ?state @ [CHR 0x0A])"
    "spawned w5 = spawned w0 @ [?argv]" "pid \<in> alive w5"
    by simp_all
  with w1 s show ?thesis
    by (intro exI[of _ sid] exI[of _ s] exI[of _ pid] exI[of _ "toISOString env (now w4)"])
       (simp add: console_log_def)
qed

text \<open>
  C6. When a session is persisted and \<^const>\<open>isProcessAlive\<close> finds a process for the
  pid recorded, \<^const>\<open>start\<close> changes nothing in the world but the lines printed: nothing
  is spawned, no request is made and the state file is untouched; and where the pid,
  the port and the session id recorded convert to strings, it returns after printing
  that session. When \<^const>\<open>start\<close> finds no live session and returns, it has spawned
  one driver, saved the record of the session it created and printed its id; and then,
  as long as the file written parses back to that record, is still there and
  \<^const>\<open>isProcessAlive\<close> finds the driver, a second \<^const>\<open>start\<close> (on any port) returns
  after printing the same session id, and the drivers spawned by both calls together
  are that one.
\<close>

theorem start_idempotent:
  "(truthy (loadSession env w) \<and>
    isProcessAlive env w (own_prop (loadSession env w) ''pid'') \<longrightarrow>
      (\<exists>c. snd (start env port w) = w\<lparr>console := c\<rparr>)) \<and>
   (truthy (loadSession env w) \<and>
    isProcessAlive env w (own_prop (loadSession env w) ''pid'') \<and>
    ToString env (own_prop (loadSession env w) ''pid'') = Inr p \<and>
    ToString env (own_prop (loadSession env w) ''port'') = Inr q \<and>
    ToString env (own_prop (loadSession env w) ''sessionId'') = Inr r \<longrightarrow>
      start env port w =
        (Returned,
         console_log
           (''Session already active (pid='' @ p @ '', port='' @ q @
            '', session='' @ r @ '')'') w)) \<and>
   (\<not> (truthy (loadSession env w0) \<and>
        isProcessAlive env w0 (own_prop (loadSession env w0) ''pid'')) \<and>
    start env port w0 = (Returned, w1) \<longrightarrow>
      (\<exists>sid s pid iso.
         ToString env sid = Inr s \<and>
         state_file w1 =
           Content (JSON_stringify env
             (JObj [(''port'', JNum (real_of_int port)), (''sessionId'', sid),
                    (''pid'', JNum (real_of_int pid)), (''startedAt'', JStr iso)]) @
             [CHR 0x0A]) \<and>
         spawned w1 =
           spawned w0 @ [[''safaridriver'', ''-p'', Number_toString env (real_of_int port)]] \<and>
         (Stdout, ''  Session:   '' @ s) \<in> set (console w1) \<and>
         pid \<in> alive w1 \<and>
         (\<forall>w1' port'.
            JSON_parse env
              (JSON_stringify env
                 (JObj [(''port'', JNum (real_of_int port)), (''sessionId'', sid),
                        (''pid'', JNum (real_of_int pid)), (''startedAt'', JStr iso)]) @
               [CHR 0x0A]) =
              Some (JObj [(''port'', JNum (real_of_int port)), (''sessionId'', sid),
                          (''pid'', JNum (real_of_int pid)), (''startedAt'', JStr iso)]) \<and>
            state_file w1' = state_file w1 \<and> spawned w1' = spawned w1 \<and>
            isProcessAlive env w1' (JNum (real_of_int pid)) \<longrightarrow>
              start env port' w1' =
                (Returned,
                 console_log
                   (''Session already active (pid='' @ Number_toString env (real_of_int pid) @
                    '', port='' @ Number_toString env (real_of_int port) @
                    '', session='' @ s @ '')'') w1') \<and>
              spawned (snd (start env port' w1')) =
                spawned w0 @
                  [[''safaridriver'', ''-p'', Number_toString env (real_of_int port)]])))"
proof (intro conjI impI)
  assume a: "truthy (loadSession env w) \<and>
    isProcessAlive env w (own_prop (loadSession env w) ''pid'')"
  then have s: "start env port w =
           (case session_active_line env (loadSession env w) of
              Inl e \<Rightarrow> (Threw e, w)
            | Inr line \<Rightarrow> (Returned, console_log line w))"
    using start_reuse[of env w port] by blast
  show "\<exists>c. snd (start env port w) = w\<lparr>console := c\<rparr>"
  proof (cases "session_active_line env (loadSession env w)")
    case (Inl e)
    with s have "snd (start env port w) = w\<lparr>console := console w\<rparr>"
      by simp
    then show ?thesis by blast
  next
    case (Inr line)
    with s have "snd (start env port w) = w\<lparr>console := console w @ [(Stdout, line)]\<rparr>"
      by (simp add: console_log_def)
    then show ?thesis by blast
  qed
next
  assume a: "truthy (loadSession env w) \<and>
    isProcessAlive env w (own_prop (loadSession env w) ''pid'') \<and>
    ToString env (own_prop (loadSession env w) ''pid'') = Inr p \<and>
    ToString env (own_prop (loadSession env w) ''port'') = Inr q \<and>
    ToString env (own_prop (loadSession env w) ''sessionId'') = Inr r"
  then have "session_active_line env (loadSession env w) =
      Inr (''Session already active (pid='' @ p @ '', port='' @ q @
            '', session='' @ r @ '')'')"
    by (simp add: session_active_line_def and_then_Inr)
  with a start_reuse[of env w port] show "start env port w =
        (Returned,
         console_log
           (''Session already active (pid='' @ p @ '', port='' @ q @
            '', session='' @ r @ '')'') w)"
    by simp
next
  assume a: "\<not> (truthy (loadSession env w0) \<and>
                isProcessAlive env w0 (own_prop (loadSession env w0) ''pid'')) \<and>
             start env port w0 = (Returned, w1)"
  let ?port = "Number_toString env (real_of_int port)"
  from start_fresh[of env w0 port w1] a obtain sid s pid iso where
    t: "ToString env sid = Inr s"
    and f: "state_file w1 =
           Content (JSON_stringify env
             (JObj [(''port'', JNum (real_of_int port)), (''sessionId'', sid),
                    (''pid'', JNum (real_of_int pid)), (''startedAt'', JStr iso)]) @
             [CHR 0x0A])"
    and s: "spawned w1 = spawned w0 @ [[''safaridriver'', ''-p'', ?port]]"
    and c: "(Stdout, ''  Session:   '' @ s) \<in> set (console w1)"
    and p: "pid \<in> alive w1"
    by blast
  let ?state = "JObj [(''port'', JNum (real_of_int port)), (''sessionId'', sid),
                    (''pid'', JNum (real_of_int pid)), (''startedAt'', JStr iso)]"
  have again: "start env port' w1' =
                (Returned,
                 console_log
                   (''Session already active (pid='' @ Number_toString env (real_of_int pid) @
                    '', port='' @ ?port @ '', session='' @ s @ '')'') w1') \<and>
              spawned (snd (start env port' w1')) = spawned w0 @ [[''safaridriver'', ''-p'', ?port]]"
    if h: "JSON_parse env (JSON_stringify env ?state @ [CHR 0x0A]) = Some ?state \<and>
           state_file w1' = state_file w1 \<and> spawned w1' = spawned w1 \<and>
           isProcessAlive env w1' (JNum (real_of_int pid))"
    for w1' port'
  proof -
    from h f have l: "loadSession env w1' = ?state"
      by (simp add: loadSession_def loadSession_try_def readFileSync_def and_then_def)
    have line: "session_active_line env ?state =
        Inr (''Session already active (pid='' @ Number_toString env (real_of_int pid) @
             '', port='' @ ?port @ '', session='' @ s @ '')'')"
      using t by (simp add: session_active_line_def and_then_Inr)
    from h l have "start env port' w1' =
           (case session_active_line env ?state of
              Inl e \<Rightarrow> (Threw e, w1')
            | Inr line \<Rightarrow> (Returned, console_log line w1'))"
      using start_reuse[of env w1' port'] by simp
    with line have "start env port' w1' =
                (Returned,
                 console_log
                   (''Session already active (pid='' @ Number_toString env (real_of_int pid) @
                    '', port='' @ ?port @ '', session='' @ s @ '')'') w1')"
      by simp
    with h s show ?thesis
      by (simp add: console_log_def)
  qed
  from t f s c p again show "\<exists>sid s pid iso.
         ToString env sid = Inr s \<and>
         state_file w1 =
           Content (JSON_stringify env
             (JObj [(''port'', JNum (real_of_int port)), (''sessionId'', sid),
                    (''pid'', JNum (real_of_int pid)), (''startedAt'', JStr iso)]) @
             [CHR 0x0A]) \<and>
         spawned w1 =
           spawned w0 @ [[''safaridriver'', ''-p'', Number_toString env (real_of_int port)]] \<and>
         (Stdout, ''  Session:   '' @ s) \<in> set (console w1) \<and>
         pid \<in> alive w1 \<and>
         (\<forall>w1' port'.
            JSON_parse env
              (JSON_stringify env
                 (JObj [(''port'', JNum (real_of_int port)), (''sessionId'', sid),
                        (''pid'', JNum (real_of_int pid)), (''startedAt'', JStr iso)]) @
               [CHR 0x0A]) =
              Some (JObj [(''port'', JNum (real_of_int port)), (''sessionId'', sid),
                          (''pid'', JNum (real_of_int pid)), (''startedAt'', JStr iso)]) \<and>
            state_file w1' = state_file w1 \<and> spawned w1' = spawned w1 \<and>
            isProcessAlive env w1' (JNum (real_of_int pid)) \<longrightarrow>
              start env port' w1' =
                (Returned,
                 console_log
                   (''Session already active (pid='' @ Number_toString env (real_of_int pid) @
                    '', port='' @ Number_toString env (real_of_int port) @
                    '', session='' @ s @ '')'') w1') \<and>
              spawned (snd (start env port' w1')) =
                spawned w0 @
                  [[''safaridriver'', ''-p'', Number_toString env (real_of_int port)]])"
    by blast
qed

text \<open>The first start of the examples: three probes are refused, the fourth is
  answered, the session \<^verbatim>\<open>abc123\<close> is created and saved.\<close>

lemma new_WebDriver_example: "new_WebDriver env_example (JNum 9515) = Inr driver_example"
  by (simp add: new_WebDriver_def and_then_Inr Number_toString_example driver_example_def)

lemma waitForDriver_example:
  "waitForDriver env_example (JNum 9515) 10000 (w\<lparr>now := 0\<rparr>) = (Inr (), w\<lparr>now := 605\<rparr>)"
proof -
  let ?d = driver_example
  have refused: "getStatus env_example ?d (w\<lparr>now := t\<rparr>) =
      (Inl (WebDriverError_thrown
         \<lparr>message = ''Cannot connect to SafariDriver at http://localhost:9515: fetch failed'',
          statusCode = None, webdriverError = None\<rparr>), w\<lparr>now := t\<rparr>)"
    if "t < 600" for t
    using that
    by (simp add: getStatus_def this_request_def env_example_def fetch_example_def request_def
        driver_example_def)
  have q: \<open>request env_example ?d
      (Resolved \<lparr>status = 200, text_body = BodyText ''{"value":{"ready":true}}''\<rparr>) =
      Inr (JObj [(''ready'', JBool True)])\<close>
    by (simp add: request_json JSON_parse_example parse_examples_def)
  have f: \<open>fetch env_example 600 ''GET'' ''http://localhost:9515/status'' None =
      (5, Resolved \<lparr>status = 200, text_body = BodyText ''{"value":{"ready":true}}''\<rparr>)\<close>
    by (simp add: env_example_def fetch_example_def)
  have answered: "getStatus env_example ?d (w\<lparr>now := 600\<rparr>) =
      (Inr (JObj [(''ready'', JBool True)]), w\<lparr>now := 605\<rparr>)"
    using f q by (simp add: getStatus_def this_request_def driver_example_def)
  have sleep: "setTimeout env_example 200 (w\<lparr>now := t\<rparr>) = w\<lparr>now := t + 200\<rparr>" for t
    by (simp add: setTimeout_def env_example_def)
  have l3: "waitForDriver_loop env_example ?d 10000 (w\<lparr>now := 600\<rparr>) = (True, w\<lparr>now := 605\<rparr>)"
    by (simp add: waitForDriver_loop.simps[of _ _ _ "w\<lparr>now := 600\<rparr>"] answered)
  have l2: "waitForDriver_loop env_example ?d 10000 (w\<lparr>now := 400\<rparr>) = (True, w\<lparr>now := 605\<rparr>)"
    by (simp add: waitForDriver_loop.simps[of _ _ _ "w\<lparr>now := 400\<rparr>"] refused sleep l3)
  have l1: "waitForDriver_loop env_example ?d 10000 (w\<lparr>now := 200\<rparr>) = (True, w\<lparr>now := 605\<rparr>)"
    by (simp add: waitForDriver_loop.simps[of _ _ _ "w\<lparr>now := 200\<rparr>"] refused sleep l2)
  have l0: "waitForDriver_loop env_example ?d 10000 (w\<lparr>now := 0\<rparr>) = (True, w\<lparr>now := 605\<rparr>)"
    by (simp add: waitForDriver_loop.simps[of _ _ _ "w\<lparr>now := 0\<rparr>"] refused sleep l1)
  show ?thesis
    by (simp add: waitForDriver_def Let_def new_WebDriver_example l0)
qed

lemma createSession_example:
  "createSession env_example driver_example (w\<lparr>now := 605\<rparr>) =
     (Inr (JStr ''abc123''), w\<lparr>now := 615\<rparr>)"
proof -
  have q: \<open>request env_example driver_example
      (Resolved \<lparr>status = 200, text_body = BodyText ''{"value":{"sessionId":"abc123"}}''\<rparr>) =
      Inr (JObj [(''sessionId'', JStr ''abc123'')])\<close>
    by (simp add: request_json JSON_parse_example parse_examples_def)
  have f: \<open>fetch env_example 605 ''POST'' ''http://localhost:9515/session'' (Some capabilities) =
      (10, Resolved \<lparr>status = 200,
             text_body = BodyText ''{"value":{"sessionId":"abc123"}}''\<rparr>)\<close>
    by (simp add: env_example_def fetch_example_def)
  show ?thesis
    using f q
    by (simp add: createSession_def this_request_def driver_example_def and_then_Inr
        get_prop_def)
qed

lemma start_example: "start env_example 9515 world_empty = (Returned, world_started)"
proof -
  have l: "loadSession env_example world_empty = JNull"
    by (simp add: loadSession_def loadSession_try_def world_empty_def)
  let ?w2 = "\<lparr>dir_exists = False, state_file = Absent, writable = True, fs_log = [],
      cli_pid = 7001, cli_pgid = 7001,
      alive = {4242}, spawned = [[''safaridriver'', ''-p'', ''9515'']],
      console = [(Stderr, ''Starting safaridriver on port 9515...'')], now = 0\<rparr>"
  have sp: "spawn env_example [''safaridriver'', ''-p'', ''9515'']
      (console_error ''Starting safaridriver on port 9515...'' world_empty) = (Some 4242, ?w2)"
    by (simp add: spawn_def Let_def console_error_def world_empty_def env_example_def)
  have w: "waitForDriver env_example (JNum 9515) 10000 ?w2 = (Inr (), ?w2\<lparr>now := 605\<rparr>)"
    using waitForDriver_example[of ?w2] by simp
  have c: "createSession env_example driver_example (?w2\<lparr>now := 605\<rparr>) =
      (Inr (JStr ''abc123''), ?w2\<lparr>now := 615\<rparr>)"
    using createSession_example[of ?w2] by simp
  have iso: "toISOString env_example 615 = ''2026-01-01T00:00:00.000Z''"
    by (simp add: env_example_def)
  have sv: "saveSession env_example session_value
      \<lparr>dir_exists = False, state_file = Absent, writable = True, fs_log = [],
       cli_pid = 7001, cli_pgid = 7001,
       alive = {4242}, spawned = [[''safaridriver'', ''-p'', ''9515'']],
       console = [(Stderr, ''Starting safaridriver on port 9515...'')], now = 615\<rparr> =
      Inr \<lparr>dir_exists = True, state_file = Content (session_json @ [CHR 0x0A]),
           writable = True,
           fs_log = [Mkdir ''/Users/me/.safari-cli'',
             WriteFile ''/Users/me/.safari-cli/session.json'' (session_json @ [CHR 0x0A])],
           cli_pid = 7001, cli_pgid = 7001,
           alive = {4242}, spawned = [[''safaridriver'', ''-p'', ''9515'']],
           console = [(Stderr, ''Starting safaridriver on port 9515...'')], now = 615\<rparr>"
    by (simp add: saveSession_def mkdirSync_def writeFileSync_def and_then_def
        env_example_def STATE_DIR_def STATE_FILE_def)
  have st: "JObj [(''port'', JNum 9515), (''sessionId'', JStr ''abc123''),
                  (''pid'', JNum 4242), (''startedAt'', JStr ''2026-01-01T00:00:00.000Z'')]
            = session_value"
    by (simp add: session_value_def session_with_def)
  show ?thesis
    using sp w c
    by (simp add: start_def Let_def l Number_toString_example new_WebDriver_example iso st sv
        and_next_def console_log_template_def interpolate_def and_then_Inr
        console_log_def world_started_def)
qed

text \<open>Starting where nothing is persisted, and starting again; and starting on a
  state file that has the pid of a running driver as the string \<^verbatim>\<open>"2537"\<close>.\<close>

theorem start_idempotent_witness:
  \<open>loadSession env_example world_empty = JNull \<and>
   start env_example 9515 world_empty = (Returned, world_started) \<and>
   (Stdout, ''  Session:   abc123'') \<in> set (console world_started) \<and>
   isProcessAlive env_example world_started (JNum 4242) \<and>
   start env_example 9515 world_started =
     (Returned,
      console_log ''Session already active (pid=4242, port=9515, session=abc123)''
        world_started) \<and>
   spawned (snd (start env_example 9515 world_started)) = [[''safaridriver'', ''-p'', ''9515'']] \<and>
   loadSession env_example
     (world_running\<lparr>state_file := Content (session_json_string_pid @ [CHR 0x0A]),
                     alive := {2537}\<rparr>) = session_with (JStr ''2537'') \<and>
   isProcessAlive env_example
     (world_running\<lparr>state_file := Content (session_json_string_pid @ [CHR 0x0A]),
                     alive := {2537}\<rparr>) (JStr ''2537'') \<and>
   start env_example 9515
     (world_running\<lparr>state_file := Content (session_json_string_pid @ [CHR 0x0A]),
                     alive := {2537}\<rparr>) =
     (Returned,
      console_log ''Session already active (pid=2537, port=9515, session=abc123)''
        (world_running\<lparr>state_file := Content (session_json_string_pid @ [CHR 0x0A]),
                        alive := {2537}\<rparr>)) \<and>
   spawned (snd (start env_example 9515
     (world_running\<lparr>state_file := Content (session_json_string_pid @ [CHR 0x0A]),
                     alive := {2537}\<rparr>))) = []\<close>
proof -
  let ?ws = "world_running\<lparr>state_file := Content (session_json_string_pid @ [CHR 0x0A]),
                           alive := {2537}\<rparr>"
  have l: "loadSession env_example world_empty = JNull"
    by (simp add: loadSession_def loadSession_try_def world_empty_def)
  have fresh: "\<not> (truthy (loadSession env_example world_empty) \<and>
      isProcessAlive env_example world_empty
        (own_prop (loadSession env_example world_empty) ''pid''))"
    by (simp add: l)
  note twice = start_idempotent[of env_example _ 9515 _ _ _ world_empty world_started,
      THEN conjunct2, THEN conjunct2]
  from twice fresh start_example
  obtain sid s pid iso where
    t: "ToString env_example sid = Inr s"
    and f: "state_file world_started =
           Content (JSON_stringify env_example
             (JObj [(''port'', JNum (real_of_int 9515)), (''sessionId'', sid),
                    (''pid'', JNum (real_of_int pid)), (''startedAt'', JStr iso)]) @
             [CHR 0x0A])"
    and c: "(Stdout, ''  Session:   '' @ s) \<in> set (console world_started)"
    and all: "\<forall>w1' port'.
            JSON_parse env_example
              (JSON_stringify env_example
                 (JObj [(''port'', JNum (real_of_int 9515)), (''sessionId'', sid),
                        (''pid'', JNum (real_of_int pid)), (''startedAt'', JStr iso)]) @
               [CHR 0x0A]) =
              Some (JObj [(''port'', JNum (real_of_int 9515)), (''sessionId'', sid),
                          (''pid'', JNum (real_of_int pid)), (''startedAt'', JStr iso)]) \<and>
            state_file w1' = state_file world_started \<and>
            spawned w1' = spawned world_started \<and>
            isProcessAlive env_example w1' (JNum (real_of_int pid)) \<longrightarrow>
              start env_example port' w1' =
                (Returned,
                 console_log
                   (''Session already active (pid='' @
                    Number_toString env_example (real_of_int pid) @
                    '', port='' @ Number_toString env_example (real_of_int 9515) @
                    '', session='' @ s @ '')'') w1') \<and>
              spawned (snd (start env_example port' w1')) =
                spawned world_empty @
                  [[''safaridriver'', ''-p'', Number_toString env_example (real_of_int 9515)]]"
    by blast
  note again = all[rule_format]
  have n: "session_json \<noteq> ''null''"
    by (simp add: session_json_def session_text_def)
  from f n have "JObj [(''port'', JNum (real_of_int 9515)), (''sessionId'', sid),
                    (''pid'', JNum (real_of_int pid)), (''startedAt'', JStr iso)] = session_value"
    by (simp add: world_started_def env_example_def split: if_splits)
  then have v: "sid = JStr ''abc123''" "pid = 4242" "iso = ''2026-01-01T00:00:00.000Z''"
    by (simp_all add: session_value_def session_with_def)
  from t v have s: "s = ''abc123''"
    by simp
  have js: "JSON_stringify env_example session_value = session_json"
    by (simp add: env_example_def)
  have r: "JSON_parse env_example (JSON_stringify env_example session_value @ [CHR 0x0A])
      = Some session_value"
    by (simp add: js JSON_parse_session)
  have a: "isProcessAlive env_example world_started (JNum 4242)"
    by (simp add: isProcessAlive_def process_pid_def int32_def kill_finds_def world_started_def)
  have hyp: "JSON_parse env_example
              (JSON_stringify env_example
                 (JObj [(''port'', JNum (real_of_int 9515)), (''sessionId'', sid),
                        (''pid'', JNum (real_of_int pid)), (''startedAt'', JStr iso)]) @
               [CHR 0x0A]) =
              Some (JObj [(''port'', JNum (real_of_int 9515)), (''sessionId'', sid),
                          (''pid'', JNum (real_of_int pid)), (''startedAt'', JStr iso)]) \<and>
            state_file world_started = state_file world_started \<and>
            spawned world_started = spawned world_started \<and>
            isProcessAlive env_example world_started (JNum (real_of_int pid))"
    using v r a by (simp add: session_value_def session_with_def)
  note second = again[OF hyp, of 9515]
  from second[THEN conjunct1] v s
  have s1: "start env_example 9515 world_started =
     (Returned,
      console_log ''Session already active (pid=4242, port=9515, session=abc123)''
        world_started)"
    by (simp add: Number_toString_example)
  from second[THEN conjunct2]
  have s2: "spawned (snd (start env_example 9515 world_started)) =
      [[''safaridriver'', ''-p'', ''9515'']]"
    by (simp add: world_empty_def Number_toString_example)
  from c s have c': "(Stdout, ''  Session:   abc123'') \<in> set (console world_started)"
    by simp
  have ls: "loadSession env_example ?ws = session_with (JStr ''2537'')"
    by (simp add: loadSession_def loadSession_try_def readFileSync_def and_then_def
        JSON_parse_session)
  have as: "isProcessAlive env_example ?ws (JStr ''2537'')"
    by (simp add: isProcessAlive_def process_pid_def int32_def kill_finds_def env_example_def)
  note reuse = start_idempotent[of env_example ?ws 9515 "''2537''" "''9515''" "''abc123''"]
  from reuse[THEN conjunct2, THEN conjunct1] ls as
  have s3: "start env_example 9515 ?ws =
     (Returned,
      console_log ''Session already active (pid=2537, port=9515, session=abc123)'' ?ws)"
    by (simp add: own_prop_session_with Number_toString_example)
  from reuse[THEN conjunct1] ls as
  obtain cs where "snd (start env_example 9515 ?ws) = ?ws\<lparr>console := cs\<rparr>"
    by (auto simp: own_prop_session_with)
  then have s4: "spawned (snd (start env_example 9515 ?ws)) = []"
    by (simp add: world_running_def)
  from l start_example c' a s1 s2 ls as s3 s4 show ?thesis
    by blast
qed

end
